theory Spec2Isabelle
  imports Complex_Main "HOL-Library.Word"
begin

section \<open>The q3DMASC classifier (q3DMASCClassifier.cpp)\<close>

text \<open>
  A shallow embedding of \<^verbatim>\<open>masc::Classifier\<close>: \<^verbatim>\<open>isValid\<close>, \<^verbatim>\<open>GetSource\<close>,
  \<^verbatim>\<open>evaluate\<close>, \<^verbatim>\<open>train\<close>, \<^verbatim>\<open>toFile\<close> and \<^verbatim>\<open>fromFile\<close>. The classifier's
  only field is the pointer \<^verbatim>\<open>m_rtrees\<close>; OpenCV (matrices, random trees) and
  CloudCompare (clouds, scalar fields, reference clouds) are libraries outside the
  repository. The random trees are kept opaque: a type \<open>'m\<close> of models and the functions
  of the record \<open>env\<close>. The progress dialogs and the log lines of \<^verbatim>\<open>train\<close>,
  \<^verbatim>\<open>evaluate\<close> and \<^verbatim>\<open>GetSource\<close> change nothing that the functions return and are
  left out; the warning of \<^verbatim>\<open>fromFile\<close> and \<^verbatim>\<open>toFile\<close> is returned as a flag.
\<close>

subsection \<open>Numbers\<close>

text \<open>
  A C++ \<^verbatim>\<open>float\<close> or \<^verbatim>\<open>double\<close>: a real number, an infinity or NaN. Rounding to
  the nearest \<^verbatim>\<open>float\<close> is the function \<open>round_float\<close> of the environment.
\<close>

datatype cfloat = Finite real | PosInf | NegInf | NaN

definition trunc_real :: "real \<Rightarrow> int" where
  "trunc_real x = (if 0 \<le> x then \<lfloor>x\<rfloor> else \<lceil>x\<rceil>)"

text \<open>
  \<^verbatim>\<open>static_cast<int>(x)\<close> for a floating-point \<open>x\<close> drops the fractional part; the
  behaviour is undefined (\<open>None\<close>) when the result does not fit an \<^verbatim>\<open>int\<close>, and for
  NaN and the infinities.
\<close>

fun float_to_int :: "cfloat \<Rightarrow> int option" where
  "float_to_int (Finite x) =
     (if - (2 ^ 31) \<le> trunc_real x \<and> trunc_real x < 2 ^ 31 then Some (trunc_real x) else None)"
| "float_to_int PosInf = None"
| "float_to_int NegInf = None"
| "float_to_int NaN = None"

text \<open>
  \<^verbatim>\<open>static_cast<int>(n)\<close> for an unsigned \<open>n\<close> (\<^verbatim>\<open>unsigned\<close> or \<^verbatim>\<open>size_t\<close>)
  keeps the low 32 bits, read as two's complement.
\<close>

definition unsigned_to_int :: "nat \<Rightarrow> int" where
  "unsigned_to_int n =
     (if n mod 2 ^ 32 < 2 ^ 31 then int (n mod 2 ^ 32) else int (n mod 2 ^ 32) - 2 ^ 32)"

text \<open>\<^verbatim>\<open>static_cast<unsigned char>(i)\<close> keeps the low 8 bits.\<close>

definition int_to_uchar :: "int \<Rightarrow> 8 word" where
  "int_to_uchar i = word_of_int i"

text \<open>An \<^verbatim>\<open>unsigned char\<close> converts to \<^verbatim>\<open>float\<close> exactly.\<close>

definition uchar_to_float :: "8 word \<Rightarrow> cfloat" where
  "uchar_to_float w = Finite (real (unat w))"

text \<open>
  \<^verbatim>\<open>x / y\<close> on two finite floats, as IEEE 754 has it: a zero divisor gives NaN for a
  zero dividend and an infinity otherwise.
\<close>

definition float_div :: "(real \<Rightarrow> real) \<Rightarrow> real \<Rightarrow> real \<Rightarrow> cfloat" where
  "float_div rnd x y =
     (if y = 0 then (if x = 0 then NaN else if 0 < x then PosInf else NegInf)
      else Finite (rnd (x / y)))"

subsection \<open>Clouds, features and reference clouds\<close>

text \<open>
  \<^verbatim>\<open>ccPointCloud\<close> (CloudCompare): the points, the scalar fields in the order of
  their indices, each with its name, and the colours when the cloud has any.
  \<^verbatim>\<open>size()\<close> is the number of points.
\<close>

type_synonym ScalarField = "cfloat list"

record ccPointCloud =
  points :: "(cfloat \<times> cfloat \<times> cfloat) list"
  scalarFields :: "(string \<times> ScalarField) list"
  rgbColors :: "(8 word \<times> 8 word \<times> 8 word) list option"

definition cloud_size :: "ccPointCloud \<Rightarrow> nat" where
  "cloud_size pc = length (points pc)"

text \<open>
  \<^verbatim>\<open>getScalarFieldIndexByName\<close>: the index of the first field of that name, -1 when
  there is none.
\<close>

fun index_by_name :: "string \<Rightarrow> (string \<times> ScalarField) list \<Rightarrow> nat \<Rightarrow> int" where
  "index_by_name name [] k = - 1"
| "index_by_name name (sf # sfs) k =
     (if fst sf = name then int k else index_by_name name sfs (Suc k))"

definition getScalarFieldIndexByName :: "ccPointCloud \<Rightarrow> string \<Rightarrow> int" where
  "getScalarFieldIndexByName pc name = index_by_name name (scalarFields pc) 0"

text \<open>\<^verbatim>\<open>getScalarField(index)\<close>: the field at that index, a null pointer out of range.\<close>

definition getScalarField :: "ccPointCloud \<Rightarrow> int \<Rightarrow> ScalarField option" where
  "getScalarField pc idx =
     (if 0 \<le> idx \<and> idx < int (length (scalarFields pc))
      then Some (snd (scalarFields pc ! nat idx)) else None)"

text \<open>\<^verbatim>\<open>ScalarField::getValue(index)\<close>; reading past the end is undefined (\<open>None\<close>).\<close>

definition getValue :: "ScalarField \<Rightarrow> nat \<Rightarrow> cfloat option" where
  "getValue sf i = (if i < length sf then Some (sf ! i) else None)"

text \<open>\<^verbatim>\<open>LAS_FIELD_NAMES[LAS_CLASSIFICATION]\<close>, as the comment in the source gives it.\<close>

definition LAS_CLASSIFICATION :: string where
  "LAS_CLASSIFICATION = ''Classification''"

text \<open>
  Clouds are referred to by pointers. The store maps an address to the object there: a
  \<^verbatim>\<open>ccPointCloud\<close>, or a cloud of another class (for which the \<^verbatim>\<open>dynamic_cast\<close> of
  \<^verbatim>\<open>evaluate\<close> gives a null pointer). A pointer is an address or null (\<open>None\<close>).
\<close>

type_synonym ptr = nat

datatype cloud_obj = PointCloudObj ccPointCloud | OtherCloudObj

type_synonym store = "ptr \<Rightarrow> cloud_obj option"

text \<open>\<^verbatim>\<open>struct Feature\<close> (the header under src/unnamed).\<close>

datatype Source = ScalarField | DimX | DimY | DimZ | Red | Green | Blue

record Feature =
  cloud :: "ptr option"
  source :: Source
  sourceName :: string

text \<open>
  \<^verbatim>\<open>CCLib::ReferenceCloud\<close>: the associated cloud and the global indices of the
  selected points; \<^verbatim>\<open>size()\<close> is their number and \<^verbatim>\<open>getPointGlobalIndex(i)\<close> the
  \<open>i\<close>-th of them.
\<close>

record ReferenceCloud =
  associatedCloud :: "ptr option"
  indices :: "nat list"

subsection \<open>Value sources\<close>

text \<open>
  Modelled from the spec: ScalarFieldWrappers.h (the classes \<^verbatim>\<open>ScalarFieldWrapper\<close>,
  \<^verbatim>\<open>DimScalarFieldWrapper\<close> and \<^verbatim>\<open>ColorScalarFieldWrapper\<close>) is not among the source
  files. Section 4.1 of the specification: a named scalar field is valid iff the field
  exists and its length is at least the cloud's point count, and its value is the stored
  value; a coordinate source is always valid and gives the coordinate of the point; a
  colour source is valid iff the cloud has colours and gives the channel. Reading at an
  index that the cloud does not have is undefined (\<open>None\<close>).
\<close>

datatype Dim = WDimX | WDimY | WDimZ

datatype Band = WRed | WGreen | WBlue

datatype IScalarFieldWrapper =
    ScalarFieldWrapper "ScalarField option"
  | DimScalarFieldWrapper ccPointCloud Dim
  | ColorScalarFieldWrapper ccPointCloud Band

fun isValid_source :: "ccPointCloud \<Rightarrow> IScalarFieldWrapper \<Rightarrow> bool" where
  "isValid_source pc (ScalarFieldWrapper None) = False"
| "isValid_source pc (ScalarFieldWrapper (Some sf)) = (cloud_size pc \<le> length sf)"
| "isValid_source pc (DimScalarFieldWrapper c d) = True"
| "isValid_source pc (ColorScalarFieldWrapper c b) = (rgbColors c \<noteq> None)"

fun coordinate :: "Dim \<Rightarrow> cfloat \<times> cfloat \<times> cfloat \<Rightarrow> cfloat" where
  "coordinate WDimX (x, y, z) = x"
| "coordinate WDimY (x, y, z) = y"
| "coordinate WDimZ (x, y, z) = z"

fun channel :: "Band \<Rightarrow> 8 word \<times> 8 word \<times> 8 word \<Rightarrow> 8 word" where
  "channel WRed (r, g, b) = r"
| "channel WGreen (r, g, b) = g"
| "channel WBlue (r, g, b) = b"

fun pointValue :: "IScalarFieldWrapper \<Rightarrow> nat \<Rightarrow> cfloat option" where
  "pointValue (ScalarFieldWrapper None) i = None"
| "pointValue (ScalarFieldWrapper (Some sf)) i = getValue sf i"
| "pointValue (DimScalarFieldWrapper c d) i =
     (if i < length (points c) then Some (coordinate d (points c ! i)) else None)"
| "pointValue (ColorScalarFieldWrapper c b) i =
     (case rgbColors c of
        None \<Rightarrow> None
      | Some cols \<Rightarrow> if i < length cols then Some (uchar_to_float (channel b (cols ! i))) else None)"

subsection \<open>Outcomes of a call\<close>

text \<open>
  A call returns, or the process stops: a failed \<^verbatim>\<open>assert\<close> (in a build without
  \<^verbatim>\<open>NDEBUG\<close>), undefined behaviour (a null pointer dereferenced, a read or write out
  of range, a conversion that does not fit), or an exception that nothing catches.
\<close>

datatype abort = AssertionFailed | UndefinedBehaviour | UncaughtException

datatype 'a outcome = Returns 'a | Aborts abort

text \<open>The messages that \<^verbatim>\<open>train\<close> and \<^verbatim>\<open>evaluate\<close> write to \<^verbatim>\<open>errorMessage\<close>.\<close>

datatype error =
    NotTrainedYet
  | NoFeature
  | NoTestSubset
  | InvalidTestSubset
  | MissingClassification
  | InvalidClassification
  | CvExceptionMsg string
  | InvalidFeatureNoCloud
  | InvalidTrainSubset
  | FeatureCloudDiffers Feature
  | InvalidSource string
  | StdExceptionMsg string
  | UnknownError
  | TrainingFailed

subsection \<open>The environment: OpenCV and the build\<close>

type_synonym Mat = "cfloat list list"

record RandomTreesParams =
  maxDepth :: int
  minSampleCount :: int
  calcVarImportance :: bool
  activeVarCount :: int
  maxTreeCount :: int

text \<open>
  What \<^verbatim>\<open>RTrees::create\<close>, the setters and \<^verbatim>\<open>RTrees::train\<close> do together: the call
  returns and leaves a model, or throws; after an exception other than
  \<^verbatim>\<open>cv::Exception\<close> the classifier keeps the object that was being trained.
\<close>

datatype 'm train_result =
    TrainDone 'm
  | ThrowsCv string
  | ThrowsStd string 'm
  | ThrowsOther 'm

record ('m, 'fs) env =
  NDEBUG :: bool
  round_float :: "real \<Rightarrow> real"
  Mat_create_throws :: "int \<Rightarrow> int \<Rightarrow> string option"
  Mat_bad_size :: string
  uninitialized :: cfloat
  RTrees_train :: "RandomTreesParams \<Rightarrow> Mat \<Rightarrow> Mat \<Rightarrow> 'm train_result"
  RTrees_isTrained :: "'m \<Rightarrow> bool"
  RTrees_predict :: "'m \<Rightarrow> cfloat list \<Rightarrow> cfloat"
  RTrees_save :: "'m \<Rightarrow> string \<Rightarrow> 'fs \<Rightarrow> 'fs option"
  RTrees_load :: "string \<Rightarrow> 'fs \<Rightarrow> 'm option option"

text \<open>
  \<^verbatim>\<open>cv::Mat::create(rows, cols, CV_32FC1)\<close>: throws a \<^verbatim>\<open>cv::Exception\<close> for a
  negative size or when the environment says so (no memory); otherwise the matrix has
  that many rows and columns, and its cells hold whatever was in memory.
\<close>

definition Mat_create :: "('m, 'fs) env \<Rightarrow> int \<Rightarrow> int \<Rightarrow> string + Mat" where
  "Mat_create e r c =
     (if r < 0 \<or> c < 0 then Inl (Mat_bad_size e)
      else case Mat_create_throws e r c of
        Some msg \<Rightarrow> Inl msg
      | None \<Rightarrow> Inr (replicate (nat r) (replicate (nat c) (uninitialized e))))"

text \<open>\<^verbatim>\<open>M.at<float>(i, j) = v\<close>; a write outside the matrix is undefined (\<open>None\<close>).\<close>

definition Mat_set :: "Mat \<Rightarrow> nat \<Rightarrow> nat \<Rightarrow> cfloat \<Rightarrow> Mat option" where
  "Mat_set M i j v =
     (if i < length M \<and> j < length (M ! i) then Some (M[i := (M ! i)[j := v]]) else None)"

text \<open>\<^verbatim>\<open>static_cast<float>(value)\<close> for a \<^verbatim>\<open>double\<close>.\<close>

fun double_to_float :: "('m, 'fs) env \<Rightarrow> cfloat \<Rightarrow> cfloat" where
  "double_to_float e (Finite x) = Finite (round_float e x)"
| "double_to_float e PosInf = PosInf"
| "double_to_float e NegInf = NegInf"
| "double_to_float e NaN = NaN"

text \<open>\<^verbatim>\<open>assert(false)\<close>, then the rest of the branch.\<close>

definition assert_false :: "('m, 'fs) env \<Rightarrow> 'a outcome \<Rightarrow> 'a outcome" where
  "assert_false e k = (if NDEBUG e then k else Aborts AssertionFailed)"

subsection \<open>GetSource\<close>

text \<open>
  \<^verbatim>\<open>GetSource(f, cloud)\<close> (lines 45 to 92): a null \<open>f\<close> is asserted against and then
  dereferenced; a scalar-field feature whose field the cloud does not have gives the null
  source.
\<close>

definition GetSource ::
  "('m, 'fs) env \<Rightarrow> Feature option \<Rightarrow> ccPointCloud \<Rightarrow> IScalarFieldWrapper option outcome" where
  "GetSource e fo pc =
     (case fo of
        None \<Rightarrow> assert_false e (Aborts UndefinedBehaviour)
      | Some f \<Rightarrow>
          (case source f of
             ScalarField \<Rightarrow>
               (let sfIdx = getScalarFieldIndexByName pc (sourceName f)
                in if 0 \<le> sfIdx then Returns (Some (ScalarFieldWrapper (getScalarField pc sfIdx)))
                   else Returns None)
           | DimX \<Rightarrow> Returns (Some (DimScalarFieldWrapper pc WDimX))
           | DimY \<Rightarrow> Returns (Some (DimScalarFieldWrapper pc WDimY))
           | DimZ \<Rightarrow> Returns (Some (DimScalarFieldWrapper pc WDimZ))
           | Red \<Rightarrow> Returns (Some (ColorScalarFieldWrapper pc WRed))
           | Green \<Rightarrow> Returns (Some (ColorScalarFieldWrapper pc WGreen))
           | Blue \<Rightarrow> Returns (Some (ColorScalarFieldWrapper pc WBlue))))"

subsection \<open>Early returns\<close>

text \<open>
  \<^verbatim>\<open>train\<close> and \<^verbatim>\<open>evaluate\<close> leave by \<^verbatim>\<open>return false\<close> at many places. A step is
  an outcome holding either the failure (\<open>Inl\<close>, with the message written to
  \<^verbatim>\<open>errorMessage\<close>, \<open>None\<close> when the branch writes none) or the value to go on with.
\<close>

definition failed :: "error \<Rightarrow> (error option + 'a) outcome" where
  "failed err = Returns (Inl (Some err))"

definition bind ::
  "(error option + 'a) outcome \<Rightarrow> ('a \<Rightarrow> (error option + 'b) outcome) \<Rightarrow> (error option + 'b) outcome" where
  "bind r k =
     (case r of
        Aborts a \<Rightarrow> Aborts a
      | Returns (Inl err) \<Rightarrow> Returns (Inl err)
      | Returns (Inr x) \<Rightarrow> k x)"

subsection \<open>The steps shared by train and evaluate\<close>

text \<open>
  Looking for the classification field (lines 122 to 135 in \<^verbatim>\<open>evaluate\<close>, the same
  text at lines 229 to 242 in \<^verbatim>\<open>train\<close>): \<^verbatim>\<open>if (!classifSFIdx)\<close> is taken when the
  index is 0.
\<close>

definition classification_field ::
  "('m, 'fs) env \<Rightarrow> ccPointCloud \<Rightarrow> (error option + ScalarField) outcome" where
  "classification_field e pc =
     (let classifSFIdx = getScalarFieldIndexByName pc LAS_CLASSIFICATION
      in if classifSFIdx = 0 then failed MissingClassification
         else (case getScalarField pc classifSFIdx of
                 None \<Rightarrow> assert_false e (failed InvalidClassification)
               | Some classifSF \<Rightarrow>
                   if length classifSF < cloud_size pc
                   then assert_false e (failed InvalidClassification)
                   else Returns (Inr classifSF)))"

text \<open>
  Resolving the source of a feature (lines 164 to 170 in \<^verbatim>\<open>evaluate\<close>, 288 to 294 in
  \<^verbatim>\<open>train\<close>).
\<close>

definition resolve_source ::
  "('m, 'fs) env \<Rightarrow> Feature \<Rightarrow> ccPointCloud \<Rightarrow> (error option + IScalarFieldWrapper) outcome" where
  "resolve_source e f pc =
     (case GetSource e (Some f) pc of
        Aborts a \<Rightarrow> Aborts a
      | Returns None \<Rightarrow> assert_false e (failed (InvalidSource (sourceName f)))
      | Returns (Some src) \<Rightarrow>
          if \<not> isValid_source pc src
          then assert_false e (failed (InvalidSource (sourceName f)))
          else Returns (Inr src))"

text \<open>
  The inner loop (lines 172 to 177 and 296 to 301): row \<open>i\<close>, \<open>i + 1\<close>, ... of column
  \<open>fIndex\<close> receive the values of the source at the point indices \<open>ps\<close>.
\<close>

fun fill_column ::
  "('m, 'fs) env \<Rightarrow> IScalarFieldWrapper \<Rightarrow> nat \<Rightarrow> nat \<Rightarrow> nat list \<Rightarrow> Mat \<Rightarrow> Mat option" where
  "fill_column e src fIndex i [] M = Some M"
| "fill_column e src fIndex i (p # ps) M =
     (case pointValue src p of
        None \<Rightarrow> None
      | Some v \<Rightarrow>
          (case Mat_set M i fIndex (double_to_float e v) of
             None \<Rightarrow> None
           | Some M' \<Rightarrow> fill_column e src fIndex (Suc i) ps M'))"

subsection \<open>train\<close>

record 'm Classifier =
  m_rtrees :: "'m option"

definition isValid :: "('m, 'fs) env \<Rightarrow> 'm Classifier \<Rightarrow> bool" where
  "isValid e c = (case m_rtrees c of None \<Rightarrow> False | Some m \<Rightarrow> RTrees_isTrained e m)"

text \<open>
  The point indices of the rows 0, 1, ..., \<open>n - 1\<close> in \<^verbatim>\<open>train\<close>:
  \<^verbatim>\<open>trainSubset ? trainSubset->getPointGlobalIndex(i) : i\<close>. (The source passes the
  index through \<^verbatim>\<open>int\<close> and back to unsigned, which gives the index again.)
\<close>

definition train_rows :: "ReferenceCloud option \<Rightarrow> nat \<Rightarrow> nat list" where
  "train_rows trainSubset n =
     (case trainSubset of None \<Rightarrow> [0..<n] | Some s \<Rightarrow> take n (indices s))"

text \<open>The labels (lines 261 to 276); \<^verbatim>\<open>train_labels\<close> is a matrix of one column.\<close>

fun fill_labels :: "ScalarField \<Rightarrow> nat \<Rightarrow> nat list \<Rightarrow> Mat \<Rightarrow> Mat option" where
  "fill_labels classifSF i [] L = Some L"
| "fill_labels classifSF i (p # ps) L =
     (case getValue classifSF p of
        None \<Rightarrow> None
      | Some pointClass \<Rightarrow>
          (case float_to_int pointClass of
             None \<Rightarrow> None
           | Some iClass \<Rightarrow>
               (case Mat_set L i 0 (uchar_to_float (int_to_uchar iClass)) of
                  None \<Rightarrow> None
                | Some L' \<Rightarrow> fill_labels classifSF (Suc i) ps L')))"

text \<open>The training data (lines 278 to 302), one feature after the other.\<close>

fun train_fill ::
  "('m, 'fs) env \<Rightarrow> ptr \<Rightarrow> ccPointCloud \<Rightarrow> nat list \<Rightarrow> nat \<Rightarrow> Feature option list \<Rightarrow> Mat
     \<Rightarrow> (error option + Mat) outcome" where
  "train_fill e cp pc rows fIndex [] M = Returns (Inr M)"
| "train_fill e cp pc rows fIndex (fo # fs) M =
     (case fo of
        None \<Rightarrow> Aborts UndefinedBehaviour
      | Some f \<Rightarrow>
          if cloud f \<noteq> Some cp then failed (FeatureCloudDiffers f)
          else bind (resolve_source e f pc) (\<lambda>src.
            case fill_column e src fIndex 0 rows M of
              None \<Rightarrow> Aborts UndefinedBehaviour
            | Some M' \<Rightarrow> train_fill e cp pc rows (Suc fIndex) fs M'))"

text \<open>
  Lines 211 to 302 of \<^verbatim>\<open>train\<close>: the checks, the two matrices, the labels and the
  data. The result is the failure, or the pair of \<^verbatim>\<open>training_data\<close> and
  \<^verbatim>\<open>train_labels\<close> that goes to the random trees.
\<close>

definition train_build ::
  "('m, 'fs) env \<Rightarrow> store \<Rightarrow> Feature option list \<Rightarrow> ReferenceCloud option
     \<Rightarrow> (error option + Mat \<times> Mat) outcome" where
  "train_build e h features trainSubset =
     (if features = [] then failed NoFeature
      else case hd features of
        None \<Rightarrow> failed InvalidFeatureNoCloud
      | Some f0 \<Rightarrow>
          (case cloud f0 of
             None \<Rightarrow> failed InvalidFeatureNoCloud
           | Some cp \<Rightarrow>
               if (case trainSubset of None \<Rightarrow> False | Some s \<Rightarrow> associatedCloud s \<noteq> Some cp)
               then failed InvalidTrainSubset
               else (case h cp of
                       None \<Rightarrow> Aborts UndefinedBehaviour
                     | Some OtherCloudObj \<Rightarrow> Aborts UndefinedBehaviour
                     | Some (PointCloudObj pc) \<Rightarrow>
                         bind (classification_field e pc) (\<lambda>classifSF.
                           let sampleCount = unsigned_to_int
                                 (case trainSubset of None \<Rightarrow> cloud_size pc | Some s \<Rightarrow> length (indices s));
                               attributesPerSample = unsigned_to_int (length features)
                           in case Mat_create e sampleCount attributesPerSample of
                                Inl msg \<Rightarrow> failed (CvExceptionMsg msg)
                              | Inr training_data \<Rightarrow>
                                  (case Mat_create e sampleCount 1 of
                                     Inl msg \<Rightarrow> failed (CvExceptionMsg msg)
                                   | Inr train_labels \<Rightarrow>
                                       (case fill_labels classifSF 0
                                               (train_rows trainSubset (nat sampleCount)) train_labels of
                                          None \<Rightarrow> Aborts UndefinedBehaviour
                                        | Some labels \<Rightarrow>
                                            bind (train_fill e cp pc
                                                    (train_rows trainSubset (nat sampleCount)) 0
                                                    (take (nat attributesPerSample) features)
                                                    training_data)
                                              (\<lambda>data. Returns (Inr (data, labels)))))))))"

text \<open>
  \<^verbatim>\<open>train\<close>: after the matrices, lines 304 to 353. \<^verbatim>\<open>m_rtrees\<close> is assigned the new
  object before the training; \<^verbatim>\<open>m_rtrees.release()\<close> is called in the handler of
  \<^verbatim>\<open>cv::Exception\<close> and when the model is not trained, and not in the two other
  handlers. The result is the classifier, the value returned and the message written.
\<close>

definition train ::
  "('m, 'fs) env \<Rightarrow> store \<Rightarrow> 'm Classifier \<Rightarrow> RandomTreesParams \<Rightarrow> Feature option list
     \<Rightarrow> ReferenceCloud option \<Rightarrow> ('m Classifier \<times> bool \<times> error option) outcome" where
  "train e h c params features trainSubset =
     (case train_build e h features trainSubset of
        Aborts a \<Rightarrow> Aborts a
      | Returns (Inl err) \<Rightarrow> Returns (c, False, err)
      | Returns (Inr (training_data, train_labels)) \<Rightarrow>
          (case RTrees_train e params training_data train_labels of
             ThrowsCv msg \<Rightarrow> Returns (c\<lparr>m_rtrees := None\<rparr>, False, Some (CvExceptionMsg msg))
           | ThrowsStd msg m \<Rightarrow> Returns (c\<lparr>m_rtrees := Some m\<rparr>, False, Some (StdExceptionMsg msg))
           | ThrowsOther m \<Rightarrow> Returns (c\<lparr>m_rtrees := Some m\<rparr>, False, Some UnknownError)
           | TrainDone m \<Rightarrow>
               if \<not> RTrees_isTrained e m
               then Returns (c\<lparr>m_rtrees := None\<rparr>, False, Some TrainingFailed)
               else Returns (c\<lparr>m_rtrees := Some m\<rparr>, True, None)))"

subsection \<open>evaluate\<close>

record AccuracyMetrics =
  sampleCount :: nat
  goodGuess :: nat
  ratio :: cfloat

definition zero_metrics :: AccuracyMetrics where
  "zero_metrics = \<lparr>sampleCount = 0, goodGuess = 0, ratio = Finite 0\<rparr>"

text \<open>
  \<^verbatim>\<open>dynamic_cast<ccPointCloud*>(testSubset->getAssociatedCloud())\<close>: null for a null
  pointer and for a cloud of another class.
\<close>

definition dynamic_cast_ccPointCloud :: "store \<Rightarrow> ptr option \<Rightarrow> ccPointCloud option outcome" where
  "dynamic_cast_ccPointCloud h p =
     (case p of
        None \<Rightarrow> Returns None
      | Some a \<Rightarrow>
          (case h a of
             None \<Rightarrow> Aborts UndefinedBehaviour
           | Some OtherCloudObj \<Rightarrow> Returns None
           | Some (PointCloudObj pc) \<Rightarrow> Returns (Some pc)))"

text \<open>The test data (lines 154 to 178), one feature after the other.\<close>

fun evaluate_fill ::
  "('m, 'fs) env \<Rightarrow> ccPointCloud \<Rightarrow> nat list \<Rightarrow> nat \<Rightarrow> Feature option list \<Rightarrow> Mat
     \<Rightarrow> (error option + Mat) outcome" where
  "evaluate_fill e pc rows fIndex [] M = Returns (Inr M)"
| "evaluate_fill e pc rows fIndex (fo # fs) M =
     (case fo of
        None \<Rightarrow> assert_false e (Returns (Inl None))
      | Some f \<Rightarrow>
          bind (resolve_source e f pc) (\<lambda>src.
            case fill_column e src fIndex 0 rows M of
              None \<Rightarrow> Aborts UndefinedBehaviour
            | Some M' \<Rightarrow> evaluate_fill e pc rows (Suc fIndex) fs M'))"

text \<open>
  Lines 99 to 178 of \<^verbatim>\<open>evaluate\<close>: the checks and the test data. The result is the
  failure, or the model, the classification field, the test subset and \<^verbatim>\<open>test_data\<close>.
\<close>

definition evaluate_build ::
  "('m, 'fs) env \<Rightarrow> store \<Rightarrow> 'm Classifier \<Rightarrow> Feature option list \<Rightarrow> ReferenceCloud option
     \<Rightarrow> (error option + 'm \<times> ScalarField \<times> ReferenceCloud \<times> Mat) outcome" where
  "evaluate_build e h c features testSubset =
     (case m_rtrees c of
        None \<Rightarrow> failed NotTrainedYet
      | Some m \<Rightarrow>
          if \<not> RTrees_isTrained e m then failed NotTrainedYet
          else if features = [] then failed NoFeature
          else (case testSubset of
                  None \<Rightarrow> failed NoTestSubset
                | Some s \<Rightarrow>
                    (case dynamic_cast_ccPointCloud h (associatedCloud s) of
                       Aborts a \<Rightarrow> Aborts a
                     | Returns None \<Rightarrow> failed InvalidTestSubset
                     | Returns (Some pc) \<Rightarrow>
                         bind (classification_field e pc) (\<lambda>classifSF.
                           let testSampleCount = unsigned_to_int (length (indices s));
                               attributesPerSample = unsigned_to_int (length features)
                           in case Mat_create e testSampleCount attributesPerSample of
                                Inl msg \<Rightarrow> failed (CvExceptionMsg msg)
                              | Inr test_data \<Rightarrow>
                                  bind (evaluate_fill e pc (indices s) 0
                                          (take (nat attributesPerSample) features) test_data)
                                    (\<lambda>data. Returns (Inr (m, classifSF, s, data)))))))"

text \<open>
  The loop of lines 185 to 201: the class of each point, truncated to \<^verbatim>\<open>int\<close>, is
  compared with the truncated prediction for row \<open>i\<close>. (The counter is unsigned; with
  fewer than \<open>2 ^ 32\<close> rows it does not wrap.)
\<close>

fun count_goodGuess ::
  "('m, 'fs) env \<Rightarrow> 'm \<Rightarrow> ScalarField \<Rightarrow> Mat \<Rightarrow> nat \<Rightarrow> nat list \<Rightarrow> nat \<Rightarrow> nat option" where
  "count_goodGuess e m classifSF M i [] g = Some g"
| "count_goodGuess e m classifSF M i (p # ps) g =
     (case getValue classifSF p of
        None \<Rightarrow> None
      | Some pointClass \<Rightarrow>
          (case float_to_int pointClass of
             None \<Rightarrow> None
           | Some iClass \<Rightarrow>
               if i < length M
               then (case float_to_int (RTrees_predict e m (M ! i)) of
                       None \<Rightarrow> None
                     | Some predicted \<Rightarrow>
                         count_goodGuess e m classifSF M (Suc i) ps
                           (if predicted = iClass then Suc g else g))
               else None))"

text \<open>
  \<^verbatim>\<open>evaluate\<close>: the metrics are zeroed first (lines 96 and 97) and computed last (lines
  180 to 204); \<^verbatim>\<open>static_cast<float>(metrics.goodGuess) / metrics.sampleCount\<close> divides
  two floats. \<^verbatim>\<open>isTrained\<close> and \<^verbatim>\<open>predict\<close> are \<^verbatim>\<open>const\<close> member functions of
  the random trees, and nothing is assigned to \<^verbatim>\<open>m_rtrees\<close>. The result is the classifier,
  the value returned, the metrics and the message written.
\<close>

definition evaluate ::
  "('m, 'fs) env \<Rightarrow> store \<Rightarrow> 'm Classifier \<Rightarrow> Feature option list \<Rightarrow> ReferenceCloud option
     \<Rightarrow> ('m Classifier \<times> bool \<times> AccuracyMetrics \<times> error option) outcome" where
  "evaluate e h c features testSubset =
     (case evaluate_build e h c features testSubset of
        Aborts a \<Rightarrow> Aborts a
      | Returns (Inl err) \<Rightarrow> Returns (c, False, zero_metrics, err)
      | Returns (Inr (m, classifSF, s, test_data)) \<Rightarrow>
          (case count_goodGuess e m classifSF test_data 0 (indices s) 0 of
             None \<Rightarrow> Aborts UndefinedBehaviour
           | Some g \<Rightarrow>
               Returns (c, True,
                 \<lparr>sampleCount = length (indices s), goodGuess = g,
                  ratio = float_div (round_float e)
                            (round_float e (real g)) (round_float e (real (length (indices s))))\<rparr>,
                 None)))"

subsection \<open>toFile and fromFile\<close>

text \<open>
  The files are a state \<open>'fs\<close> that \<^verbatim>\<open>RTrees::save\<close> changes and \<^verbatim>\<open>RTrees::load\<close>
  reads; either may throw, and nothing catches. \<^verbatim>\<open>load\<close> may return a null pointer,
  which \<^verbatim>\<open>fromFile\<close> dereferences. The results are the value returned and whether a
  warning was logged.
\<close>

definition toFile ::
  "('m, 'fs) env \<Rightarrow> 'm Classifier \<Rightarrow> string \<Rightarrow> 'fs \<Rightarrow> (bool \<times> 'fs \<times> bool) outcome" where
  "toFile e c filename fs =
     (case m_rtrees c of
        None \<Rightarrow> Returns (False, fs, True)
      | Some m \<Rightarrow>
          (case RTrees_save e m filename fs of
             None \<Rightarrow> Aborts UncaughtException
           | Some fs' \<Rightarrow> Returns (True, fs', False)))"

definition fromFile ::
  "('m, 'fs) env \<Rightarrow> 'm Classifier \<Rightarrow> string \<Rightarrow> 'fs \<Rightarrow> ('m Classifier \<times> bool \<times> bool) outcome" where
  "fromFile e c filename fs =
     (case RTrees_load e filename fs of
        None \<Rightarrow> Aborts UncaughtException
      | Some None \<Rightarrow> Aborts UndefinedBehaviour
      | Some (Some m) \<Rightarrow> Returns (c\<lparr>m_rtrees := Some m\<rparr>, True, \<not> RTrees_isTrained e m))"

subsection \<open>The constructor, and what a caller of evaluate gets back\<close>

text \<open>\<^verbatim>\<open>Classifier::Classifier()\<close> (lines 36 to 38): \<^verbatim>\<open>m_rtrees\<close> starts as a null pointer.\<close>

definition Classifier_new :: "'m Classifier" where
  "Classifier_new = \<lparr>m_rtrees = None\<rparr>"

text \<open>The value returned by \<^verbatim>\<open>evaluate\<close>, the metrics and the message.\<close>

definition evaluate_result ::
  "('m, 'fs) env \<Rightarrow> store \<Rightarrow> 'm Classifier \<Rightarrow> Feature option list \<Rightarrow> ReferenceCloud option
     \<Rightarrow> (bool \<times> AccuracyMetrics \<times> error option) outcome" where
  "evaluate_result e h c features testSubset =
     (case evaluate e h c features testSubset of
        Aborts a \<Rightarrow> Aborts a
      | Returns (c', ok, metrics, err) \<Rightarrow> Returns (ok, metrics, err))"

subsection \<open>The cell that the specification describes\<close>

text \<open>
  Section 4.1 of the specification, read by source kind and name on the backing cloud
  \<open>pc\<close>, without the resolution of the code. A named scalar field is the field of that
  name; it is valid iff it exists and is at least as long as the cloud has points, and
  its value at a point index is the stored value there. A coordinate source gives the
  x, y or z component of the point. A colour source is valid iff the cloud has colours
  and gives the red, green or blue channel of the point. There is no value where the
  source is not valid or nothing is stored at the index.
\<close>

fun spec_valueAt :: "ccPointCloud \<Rightarrow> Source \<Rightarrow> string \<Rightarrow> nat \<Rightarrow> cfloat option" where
  "spec_valueAt pc ScalarField name p =
     (case map_of (scalarFields pc) name of
        None \<Rightarrow> None
      | Some sf \<Rightarrow>
          if length (points pc) \<le> length sf \<and> p < length sf then Some (sf ! p) else None)"
| "spec_valueAt pc DimX name p =
     (if p < length (points pc) then Some (fst (points pc ! p)) else None)"
| "spec_valueAt pc DimY name p =
     (if p < length (points pc) then Some (fst (snd (points pc ! p))) else None)"
| "spec_valueAt pc DimZ name p =
     (if p < length (points pc) then Some (snd (snd (points pc ! p))) else None)"
| "spec_valueAt pc Red name p =
     (case rgbColors pc of
        None \<Rightarrow> None
      | Some cols \<Rightarrow>
          if p < length cols then Some (Finite (real (unat (fst (cols ! p))))) else None)"
| "spec_valueAt pc Green name p =
     (case rgbColors pc of
        None \<Rightarrow> None
      | Some cols \<Rightarrow>
          if p < length cols then Some (Finite (real (unat (fst (snd (cols ! p)))))) else None)"
| "spec_valueAt pc Blue name p =
     (case rgbColors pc of
        None \<Rightarrow> None
      | Some cols \<Rightarrow>
          if p < length cols then Some (Finite (real (unat (snd (snd (cols ! p)))))) else None)"

text \<open>
  Sections 4.2 and 8 of the specification: cell \<open>(i, j)\<close> of the sample matrix is the
  value, as a \<^verbatim>\<open>float\<close>, of the value source of feature \<open>j\<close> at the point index of row
  \<open>i\<close>. \<open>spec_cell e pc fo p\<close> is that value for the feature \<open>fo\<close> and the point index
  \<open>p\<close>: the source is the one that the kind and the name of the feature describe.
\<close>

definition spec_cell ::
  "('m, 'fs) env \<Rightarrow> ccPointCloud \<Rightarrow> Feature option \<Rightarrow> nat \<Rightarrow> cfloat option" where
  "spec_cell e pc fo p =
     (case fo of
        None \<Rightarrow> None
      | Some f \<Rightarrow> map_option (double_to_float e) (spec_valueAt pc (source f) (sourceName f) p))"

section \<open>Concrete inputs\<close>

text \<open>
  A small environment for evaluating the functions: no assertions (\<^verbatim>\<open>NDEBUG\<close>), no
  failing allocation, and random trees replaced by a table that remembers each training
  row with its label, is trained when the table is not empty, and predicts the label of
  a row it has seen (0 otherwise). A file holds the table that was saved to it. The
  numbers used below are small integers, which a \<^verbatim>\<open>float\<close> holds exactly.
\<close>

type_synonym table = "(cfloat list \<times> cfloat) list"

type_synonym files = "string \<Rightarrow> table option"

definition ex_env :: "(table, files) env" where
  "ex_env =
     \<lparr>NDEBUG = True,
      round_float = (\<lambda>x. x),
      Mat_create_throws = (\<lambda>r c. None),
      Mat_bad_size = ''negative size'',
      uninitialized = NaN,
      RTrees_train = (\<lambda>params data labels. TrainDone (zip data (map hd labels))),
      RTrees_isTrained = (\<lambda>m. m \<noteq> []),
      RTrees_predict = (\<lambda>m row. case map_of m row of None \<Rightarrow> Finite 0 | Some l \<Rightarrow> l),
      RTrees_save = (\<lambda>m filename fs. Some (fs(filename := Some m))),
      RTrees_load = (\<lambda>filename fs. case fs filename of None \<Rightarrow> None | Some m \<Rightarrow> Some (Some m))\<rparr>"

definition ex_params :: RandomTreesParams where
  "ex_params =
     \<lparr>maxDepth = 25, minSampleCount = 1, calcVarImportance = False, activeVarCount = 0,
      maxTreeCount = 100\<rparr>"

text \<open>Three points with an intensity and a class; the class is the field of index 1.\<close>

definition ex_cloud :: ccPointCloud where
  "ex_cloud =
     \<lparr>points = [(Finite 0, Finite 0, Finite 0), (Finite 1, Finite 0, Finite 0),
                (Finite 2, Finite 0, Finite 0)],
      scalarFields =
        [(''Intensity'', [Finite 1, Finite 9, Finite 1]),
         (''Classification'', [Finite 0, Finite 1, Finite 0])],
      rgbColors = None\<rparr>"

text \<open>The same points with the class as the field of index 0.\<close>

definition ex_cloud_class_first :: ccPointCloud where
  "ex_cloud_class_first =
     \<lparr>points = [(Finite 0, Finite 0, Finite 0), (Finite 1, Finite 0, Finite 0),
                (Finite 2, Finite 0, Finite 0)],
      scalarFields =
        [(''Classification'', [Finite 0, Finite 1, Finite 0]),
         (''Intensity'', [Finite 1, Finite 9, Finite 1])],
      rgbColors = None\<rparr>"

text \<open>The same points without a class.\<close>

definition ex_cloud_no_class :: ccPointCloud where
  "ex_cloud_no_class =
     \<lparr>points = [(Finite 0, Finite 0, Finite 0), (Finite 1, Finite 0, Finite 0),
                (Finite 2, Finite 0, Finite 0)],
      scalarFields = [(''Intensity'', [Finite 1, Finite 9, Finite 1])],
      rgbColors = None\<rparr>"

text \<open>Two points whose classes are 256 and -1.\<close>

definition ex_cloud_wide :: ccPointCloud where
  "ex_cloud_wide =
     \<lparr>points = [(Finite 0, Finite 0, Finite 0), (Finite 1, Finite 0, Finite 0)],
      scalarFields =
        [(''Intensity'', [Finite 1, Finite 9]),
         (''Classification'', [Finite 256, Finite (- 1)])],
      rgbColors = None\<rparr>"

text \<open>
  Three points with coordinates and colours that all differ, and three fields; the
  height is the field of index 2.
\<close>

definition ex_cloud_rgb :: ccPointCloud where
  "ex_cloud_rgb =
     \<lparr>points = [(Finite 100, Finite 200, Finite 300), (Finite 101, Finite 201, Finite 301),
                (Finite 102, Finite 202, Finite 302)],
      scalarFields =
        [(''Intensity'', [Finite 1, Finite 9, Finite 1]),
         (''Classification'', [Finite 0, Finite 1, Finite 0]),
         (''Height'', [Finite 5, Finite 6, Finite 7])],
      rgbColors = Some [(10, 20, 30), (40, 50, 60), (70, 80, 90)]\<rparr>"

definition ex_store :: store where
  "ex_store a =
     (if a = 1 then Some (PointCloudObj ex_cloud)
      else if a = 2 then Some (PointCloudObj ex_cloud_class_first)
      else if a = 3 then Some (PointCloudObj ex_cloud_no_class)
      else if a = 4 then Some (PointCloudObj ex_cloud_wide)
      else if a = 5 then Some (PointCloudObj ex_cloud_rgb)
      else None)"

text \<open>Three features of different kinds on the coloured cloud.\<close>

definition ex_blue :: Feature where
  "ex_blue = \<lparr>cloud = Some 5, source = Blue, sourceName = ''B''\<rparr>"

definition ex_dimz :: Feature where
  "ex_dimz = \<lparr>cloud = Some 5, source = DimZ, sourceName = ''Z''\<rparr>"

definition ex_height :: Feature where
  "ex_height = \<lparr>cloud = Some 5, source = ScalarField, sourceName = ''Height''\<rparr>"

definition ex_feature :: "ptr \<Rightarrow> Feature" where
  "ex_feature a = \<lparr>cloud = Some a, source = ScalarField, sourceName = ''Intensity''\<rparr>"

definition ex_subset :: "ptr \<Rightarrow> nat list \<Rightarrow> ReferenceCloud" where
  "ex_subset a idxs = \<lparr>associatedCloud = Some a, indices = idxs\<rparr>"

definition ex_untrained :: "table Classifier" where
  "ex_untrained = \<lparr>m_rtrees = None\<rparr>"

text \<open>The table that training on the three points of \<open>ex_cloud\<close> leaves.\<close>

definition ex_table :: table where
  "ex_table = [([Finite 1], Finite 0), ([Finite 9], Finite 1), ([Finite 1], Finite 0)]"

definition ex_trained :: "table Classifier" where
  "ex_trained = \<lparr>m_rtrees = Some ex_table\<rparr>"

definition ex_files :: files where
  "ex_files filename = None"

section \<open>Properties\<close>

subsection \<open>Evaluating lists of a given length\<close>

lemma replicate_numeral: "replicate (numeral k) x = x # replicate (pred_numeral k) x"
  by (simp add: numeral_eq_Suc)

lemma trunc_real_of_int: "trunc_real (of_int k) = k"
  by (simp add: trunc_real_def)

lemma trunc_real_simps:
  "trunc_real 0 = 0" "trunc_real 1 = 1" "trunc_real (numeral n) = numeral n"
  "trunc_real (- 1) = - 1" "trunc_real (- numeral n) = - numeral n"
  using trunc_real_of_int [of 0] trunc_real_of_int [of 1] trunc_real_of_int [of "numeral n"]
    trunc_real_of_int [of "- 1"] trunc_real_of_int [of "- numeral n"]
  by simp_all

lemma uchar_of_int: "uchar_to_float (int_to_uchar t) = Finite (real_of_int (t mod 256))"
  by (simp add: uchar_to_float_def int_to_uchar_def unat_eq_nat_uint uint_word_of_int)

lemmas ex_defs = ex_env_def ex_store_def ex_feature_def ex_cloud_def ex_untrained_def
  ex_trained_def ex_table_def ex_subset_def ex_params_def ex_cloud_class_first_def
  ex_cloud_no_class_def ex_cloud_wide_def ex_files_def ex_cloud_rgb_def ex_blue_def ex_dimz_def
  ex_height_def

lemmas model_defs = train_def train_build_def classification_field_def
  getScalarFieldIndexByName_def LAS_CLASSIFICATION_def getScalarField_def bind_def failed_def
  cloud_size_def unsigned_to_int_def Mat_create_def train_rows_def getValue_def Mat_set_def
  resolve_source_def GetSource_def uchar_of_int trunc_real_simps upt_rec evaluate_def
  evaluate_build_def dynamic_cast_ccPointCloud_def float_div_def assert_false_def
  zero_metrics_def replicate_numeral isValid_def

subsection \<open>The loops that fill the matrices\<close>

lemma Mat_set_SomeD:
  "Mat_set M i j v = Some M' \<Longrightarrow> i < length M \<and> j < length (M ! i) \<and> M' = M[i := (M ! i)[j := v]]"
  by (auto simp: Mat_set_def split: if_splits)

lemma Mat_set_lengths: "Mat_set M i j v = Some M' \<Longrightarrow> map length M' = map length M"
  by (auto dest!: Mat_set_SomeD simp: map_update list_update_same_conv)

lemma Mat_set_other:
  "Mat_set M i j v = Some M' \<Longrightarrow> r \<noteq> i \<or> c \<noteq> j \<Longrightarrow> M' ! r ! c = M ! r ! c"
  by (cases "r = i") (auto dest!: Mat_set_SomeD)

lemma Mat_set_cell: "Mat_set M i j v = Some M' \<Longrightarrow> M' ! i ! j = v"
  by (auto dest!: Mat_set_SomeD)

lemma fill_column_lengths:
  "fill_column e src j i ps M = Some M' \<Longrightarrow> map length M' = map length M"
proof (induction ps arbitrary: i M)
  case Nil
  then show ?case by simp
next
  case (Cons p ps)
  then show ?case
    by (auto split: option.splits dest: Mat_set_lengths)
qed

lemma fill_column_other:
  "fill_column e src j i ps M = Some M' \<Longrightarrow> c \<noteq> j \<or> r < i \<Longrightarrow> M' ! r ! c = M ! r ! c"
proof (induction ps arbitrary: i M)
  case Nil
  then show ?case by simp
next
  case (Cons p ps)
  from Cons.prems(1) obtain v M1 where
    v: "pointValue src p = Some v" and
    s: "Mat_set M i j (double_to_float e v) = Some M1" and
    f: "fill_column e src j (Suc i) ps M1 = Some M'"
    by (auto split: option.splits)
  from Cons.prems(2) have "c \<noteq> j \<or> r < Suc i" by auto
  from Cons.IH [OF f this] have "M' ! r ! c = M1 ! r ! c" .
  moreover from Cons.prems(2) have "r \<noteq> i \<or> c \<noteq> j" by auto
  from Mat_set_other [OF s this] have "M1 ! r ! c = M ! r ! c" .
  ultimately show ?case by simp
qed

lemma fill_column_cells:
  "fill_column e src j i ps M = Some M' \<Longrightarrow> k < length ps \<Longrightarrow>
     i + k < length M \<and> j < length (M ! (i + k)) \<and>
     (\<exists>v. pointValue src (ps ! k) = Some v \<and> M' ! (i + k) ! j = double_to_float e v)"
proof (induction ps arbitrary: i M k)
  case Nil
  then show ?case by simp
next
  case (Cons p ps)
  from Cons.prems(1) obtain v M1 where
    v: "pointValue src p = Some v" and
    s: "Mat_set M i j (double_to_float e v) = Some M1" and
    f: "fill_column e src j (Suc i) ps M1 = Some M'"
    by (auto split: option.splits)
  have len: "map length M1 = map length M" by (rule Mat_set_lengths [OF s])
  show ?case
  proof (cases k)
    case 0
    have "M' ! i ! j = M1 ! i ! j"
      by (rule fill_column_other [OF f]) simp
    with Mat_set_cell [OF s] Mat_set_SomeD [OF s] v 0 show ?thesis by simp
  next
    case (Suc k')
    with Cons.prems(2) have k': "k' < length ps" by simp
    from Cons.IH [OF f k'] have
      a: "Suc i + k' < length M1" and b: "j < length (M1 ! (Suc i + k'))" and
      c: "\<exists>v. pointValue src (ps ! k') = Some v \<and> M' ! (Suc i + k') ! j = double_to_float e v"
      by auto
    from len have l1: "length M1 = length M" by (rule map_eq_imp_length_eq)
    from len a l1 have "length (M1 ! (Suc i + k')) = length (M ! (Suc i + k'))"
      by (metis nth_map)
    with a b c l1 Suc show ?thesis by simp
  qed
qed

lemma resolve_source_InrD:
  "resolve_source e f pc = Returns (Inr src) \<Longrightarrow>
     GetSource e (Some f) pc = Returns (Some src) \<and> isValid_source pc src"
  by (auto simp: resolve_source_def assert_false_def failed_def
      split: outcome.splits option.splits if_splits)

lemma index_by_name_found:
  "index_by_name name sfs k = i \<Longrightarrow> 0 \<le> i \<Longrightarrow>
     int k \<le> i \<and> nat i - k < length sfs \<and> map_of sfs name = Some (snd (sfs ! (nat i - k)))"
proof (induction sfs arbitrary: k)
  case Nil
  then show ?case by simp
next
  case (Cons sf sfs)
  obtain n v where sf: "sf = (n, v)" by (cases sf)
  show ?case
  proof (cases "n = name")
    case True
    with Cons.prems sf show ?thesis by auto
  next
    case False
    with Cons.prems sf have r: "index_by_name name sfs (Suc k) = i" by simp
    from Cons.IH [OF r Cons.prems(2)] have
      a: "int (Suc k) \<le> i" and b: "nat i - Suc k < length sfs" and
      c: "map_of sfs name = Some (snd (sfs ! (nat i - Suc k)))"
      by auto
    from a have d: "nat i - k = Suc (nat i - Suc k)" by linarith
    from a b c d False sf show ?thesis by simp
  qed
qed

lemma getScalarField_by_name:
  assumes "0 \<le> getScalarFieldIndexByName pc name"
  shows "getScalarField pc (getScalarFieldIndexByName pc name) = map_of (scalarFields pc) name
       \<and> map_of (scalarFields pc) name \<noteq> None"
proof -
  let ?i = "getScalarFieldIndexByName pc name"
  have "index_by_name name (scalarFields pc) 0 = ?i"
    by (simp add: getScalarFieldIndexByName_def)
  from index_by_name_found [OF this assms] have
    "nat ?i < length (scalarFields pc)" and
    "map_of (scalarFields pc) name = Some (snd (scalarFields pc ! nat ?i))"
    by auto
  with assms show ?thesis by (simp add: getScalarField_def)
qed

lemma resolved_cell:
  assumes r: "resolve_source e f pc = Returns (Inr src)"
    and v: "pointValue src p = Some v"
  shows "spec_cell e pc (Some f) p = Some (double_to_float e v)"
proof -
  from resolve_source_InrD [OF r] have
    g: "GetSource e (Some f) pc = Returns (Some src)" and ok: "isValid_source pc src"
    by auto
  show ?thesis
  proof (cases "source f")
    case ScalarField
    with g have idx: "0 \<le> getScalarFieldIndexByName pc (sourceName f)"
      and src: "src = ScalarFieldWrapper
                  (getScalarField pc (getScalarFieldIndexByName pc (sourceName f)))"
      by (auto simp: GetSource_def Let_def split: if_splits)
    from getScalarField_by_name [OF idx] src have
      m: "src = ScalarFieldWrapper (map_of (scalarFields pc) (sourceName f))"
      by simp
    with ok obtain sf where sf: "map_of (scalarFields pc) (sourceName f) = Some sf"
      by (cases "map_of (scalarFields pc) (sourceName f)") auto
    with m ok v ScalarField show ?thesis
      by (auto simp: spec_cell_def cloud_size_def getValue_def split: if_splits)
  next
    case DimX
    with g have "src = DimScalarFieldWrapper pc WDimX" by (simp add: GetSource_def)
    with v DimX show ?thesis
      by (cases "points pc ! p") (auto simp: spec_cell_def split: if_splits)
  next
    case DimY
    with g have "src = DimScalarFieldWrapper pc WDimY" by (simp add: GetSource_def)
    with v DimY show ?thesis
      by (cases "points pc ! p") (auto simp: spec_cell_def split: if_splits)
  next
    case DimZ
    with g have "src = DimScalarFieldWrapper pc WDimZ" by (simp add: GetSource_def)
    with v DimZ show ?thesis
      by (cases "points pc ! p") (auto simp: spec_cell_def split: if_splits)
  next
    case Red
    with g have s: "src = ColorScalarFieldWrapper pc WRed" by (simp add: GetSource_def)
    with ok obtain cols where cols: "rgbColors pc = Some cols" by auto
    with s v Red show ?thesis
      by (cases "cols ! p") (auto simp: spec_cell_def uchar_to_float_def split: if_splits)
  next
    case Green
    with g have s: "src = ColorScalarFieldWrapper pc WGreen" by (simp add: GetSource_def)
    with ok obtain cols where cols: "rgbColors pc = Some cols" by auto
    with s v Green show ?thesis
      by (cases "cols ! p") (auto simp: spec_cell_def uchar_to_float_def split: if_splits)
  next
    case Blue
    with g have s: "src = ColorScalarFieldWrapper pc WBlue" by (simp add: GetSource_def)
    with ok obtain cols where cols: "rgbColors pc = Some cols" by auto
    with s v Blue show ?thesis
      by (cases "cols ! p") (auto simp: spec_cell_def uchar_to_float_def split: if_splits)
  qed
qed

lemma bind_InrD: "bind r k = Returns (Inr y) \<Longrightarrow> \<exists>x. r = Returns (Inr x) \<and> k x = Returns (Inr y)"
  by (auto simp: bind_def split: outcome.splits sum.splits)

lemma train_fill_ConsD:
  assumes "train_fill e cp pc rows j (fo # fs) M = Returns (Inr M')"
  shows "\<exists>f src M1. fo = Some f \<and> cloud f = Some cp \<and> resolve_source e f pc = Returns (Inr src)
           \<and> fill_column e src j 0 rows M = Some M1
           \<and> train_fill e cp pc rows (Suc j) fs M1 = Returns (Inr M')"
proof -
  from assms obtain f where f: "fo = Some f" by (cases fo) auto
  with assms have c: "cloud f = Some cp" by (auto simp: failed_def split: if_splits)
  from assms f c obtain src where
    r: "resolve_source e f pc = Returns (Inr src)" and
    k: "(case fill_column e src j 0 rows M of None \<Rightarrow> Aborts UndefinedBehaviour
          | Some M1 \<Rightarrow> train_fill e cp pc rows (Suc j) fs M1) = Returns (Inr M')"
    by (auto dest!: bind_InrD)
  from k obtain M1 where "fill_column e src j 0 rows M = Some M1"
    and "train_fill e cp pc rows (Suc j) fs M1 = Returns (Inr M')"
    by (auto split: option.splits)
  with f c r show ?thesis by blast
qed

lemma train_fill_lengths:
  "train_fill e cp pc rows j fs M = Returns (Inr M') \<Longrightarrow> map length M' = map length M"
proof (induction fs arbitrary: j M)
  case Nil
  then show ?case by simp
next
  case (Cons fo fs)
  from train_fill_ConsD [OF Cons.prems] obtain src M1 where
    "fill_column e src j 0 rows M = Some M1" and
    "train_fill e cp pc rows (Suc j) fs M1 = Returns (Inr M')"
    by blast
  then show ?case using Cons.IH fill_column_lengths by metis
qed

lemma train_fill_other:
  "train_fill e cp pc rows j fs M = Returns (Inr M') \<Longrightarrow> c < j \<Longrightarrow> M' ! r ! c = M ! r ! c"
proof (induction fs arbitrary: j M)
  case Nil
  then show ?case by simp
next
  case (Cons fo fs)
  from train_fill_ConsD [OF Cons.prems(1)] obtain src M1 where
    a: "fill_column e src j 0 rows M = Some M1" and
    b: "train_fill e cp pc rows (Suc j) fs M1 = Returns (Inr M')"
    by blast
  from Cons.prems(2) have "c < Suc j" by simp
  from Cons.IH [OF b this] have "M' ! r ! c = M1 ! r ! c" .
  moreover from Cons.prems(2) have "c \<noteq> j \<or> r < 0" by simp
  from fill_column_other [OF a this] have "M1 ! r ! c = M ! r ! c" .
  ultimately show ?case by simp
qed

lemma train_fill_cells:
  "train_fill e cp pc rows j fs M = Returns (Inr M') \<Longrightarrow> k < length fs \<Longrightarrow> i < length rows \<Longrightarrow>
     i < length M \<and> j + k < length (M ! i) \<and>
     spec_cell e pc (fs ! k) (rows ! i) = Some (M' ! i ! (j + k))"
proof (induction fs arbitrary: j M k)
  case Nil
  then show ?case by simp
next
  case (Cons fo fs)
  from train_fill_ConsD [OF Cons.prems(1)] obtain f src M1 where
    f: "fo = Some f" and
    r: "resolve_source e f pc = Returns (Inr src)" and
    a: "fill_column e src j 0 rows M = Some M1" and
    b: "train_fill e cp pc rows (Suc j) fs M1 = Returns (Inr M')"
    by blast
  have len: "map length M1 = map length M" by (rule fill_column_lengths [OF a])
  then have l1: "length M1 = length M" by (rule map_eq_imp_length_eq)
  from fill_column_cells [OF a Cons.prems(3)] obtain v where
    i: "i < length M" and jl: "j < length (M ! i)" and
    v: "pointValue src (rows ! i) = Some v" and
    c: "M1 ! i ! j = double_to_float e v"
    by auto
  show ?case
  proof (cases k)
    case 0
    have "M' ! i ! j = M1 ! i ! j"
      by (rule train_fill_other [OF b]) simp
    with c resolved_cell [OF r v] f i jl 0 show ?thesis
      by simp
  next
    case (Suc k')
    with Cons.prems(2) have k': "k' < length fs" by simp
    from Cons.IH [OF b k' Cons.prems(3)] have
      x: "Suc j + k' < length (M1 ! i)" and
      y: "spec_cell e pc (fs ! k') (rows ! i) = Some (M' ! i ! (Suc j + k'))"
      by auto
    from len i l1 have "length (M1 ! i) = length (M ! i)"
      by (metis nth_map)
    with x y i Suc show ?thesis by simp
  qed
qed

lemma unsigned_to_int_nat:
  "n < 2 ^ 32 \<Longrightarrow> 0 \<le> unsigned_to_int n \<Longrightarrow> nat (unsigned_to_int n) = n"
  by (simp add: unsigned_to_int_def split: if_splits)

lemma Mat_create_InrD:
  "Mat_create e r c = Inr M \<Longrightarrow>
     0 \<le> r \<and> 0 \<le> c \<and> M = replicate (nat r) (replicate (nat c) (uninitialized e))"
  by (auto simp: Mat_create_def split: if_splits option.splits)

lemma train_build_InrD:
  assumes "features = Some f0 # fs" and "cloud f0 = Some cp" and "h cp = Some (PointCloudObj pc)"
    and "train_build e h features trainSubset = Returns (Inr (data, labels))"
  shows "\<exists>classifSF.
           classification_field e pc = Returns (Inr classifSF)
         \<and> 0 \<le> unsigned_to_int (case trainSubset of None \<Rightarrow> cloud_size pc | Some s \<Rightarrow> length (indices s))
         \<and> 0 \<le> unsigned_to_int (length features)
         \<and> fill_labels classifSF 0
              (train_rows trainSubset (nat (unsigned_to_int
                 (case trainSubset of None \<Rightarrow> cloud_size pc | Some s \<Rightarrow> length (indices s)))))
              (replicate (nat (unsigned_to_int
                 (case trainSubset of None \<Rightarrow> cloud_size pc | Some s \<Rightarrow> length (indices s))))
                 (replicate (nat 1) (uninitialized e))) = Some labels
         \<and> train_fill e cp pc
              (train_rows trainSubset (nat (unsigned_to_int
                 (case trainSubset of None \<Rightarrow> cloud_size pc | Some s \<Rightarrow> length (indices s))))) 0
              (take (nat (unsigned_to_int (length features))) features)
              (replicate (nat (unsigned_to_int
                 (case trainSubset of None \<Rightarrow> cloud_size pc | Some s \<Rightarrow> length (indices s))))
                 (replicate (nat (unsigned_to_int (length features))) (uninitialized e)))
            = Returns (Inr data)"
proof -
  let ?n = "unsigned_to_int (case trainSubset of None \<Rightarrow> cloud_size pc | Some s \<Rightarrow> length (indices s))"
  let ?a = "unsigned_to_int (length features)"
  let ?rows = "train_rows trainSubset (nat ?n)"
  from assms(1) have ne: "features \<noteq> []" and hd: "hd features = Some f0" by simp_all
  from ne hd assms(2-4) have b: "bind (classification_field e pc) (\<lambda>classifSF.
       case Mat_create e ?n ?a of
         Inl msg \<Rightarrow> failed (CvExceptionMsg msg)
       | Inr training_data \<Rightarrow>
           (case Mat_create e ?n 1 of
              Inl msg \<Rightarrow> failed (CvExceptionMsg msg)
            | Inr train_labels \<Rightarrow>
                (case fill_labels classifSF 0 ?rows train_labels of
                   None \<Rightarrow> Aborts UndefinedBehaviour
                 | Some labels \<Rightarrow>
                     bind (train_fill e cp pc ?rows 0 (take (nat ?a) features) training_data)
                       (\<lambda>data. Returns (Inr (data, labels)))))) = Returns (Inr (data, labels))"
    by (simp add: train_build_def Let_def failed_def split: if_splits)
  from bind_InrD [OF b] obtain classifSF where
    c: "classification_field e pc = Returns (Inr classifSF)" and
    k: "(case Mat_create e ?n ?a of
         Inl msg \<Rightarrow> failed (CvExceptionMsg msg)
       | Inr training_data \<Rightarrow>
           (case Mat_create e ?n 1 of
              Inl msg \<Rightarrow> failed (CvExceptionMsg msg)
            | Inr train_labels \<Rightarrow>
                (case fill_labels classifSF 0 ?rows train_labels of
                   None \<Rightarrow> Aborts UndefinedBehaviour
                 | Some labels \<Rightarrow>
                     bind (train_fill e cp pc ?rows 0 (take (nat ?a) features) training_data)
                       (\<lambda>data. Returns (Inr (data, labels)))))) = Returns (Inr (data, labels))"
    by blast
  from k obtain training_data where m1: "Mat_create e ?n ?a = Inr training_data"
    by (auto simp: failed_def split: sum.splits)
  from k m1 obtain train_labels where m2: "Mat_create e ?n 1 = Inr train_labels"
    by (auto simp: failed_def split: sum.splits)
  from k m1 m2 obtain labels' where l: "fill_labels classifSF 0 ?rows train_labels = Some labels'"
    by (auto split: option.splits)
  from k m1 m2 l have
    "bind (train_fill e cp pc ?rows 0 (take (nat ?a) features) training_data)
       (\<lambda>data. Returns (Inr (data, labels'))) = Returns (Inr (data, labels))"
    by simp
  from bind_InrD [OF this] have
    d: "train_fill e cp pc ?rows 0 (take (nat ?a) features) training_data = Returns (Inr data)"
    and "labels' = labels"
    by auto
  with c l Mat_create_InrD [OF m1] Mat_create_InrD [OF m2] show ?thesis
    by auto
qed

lemma train_rows_all:
  "train_rows trainSubset
     (length (case trainSubset of None \<Rightarrow> [0..<cloud_size pc] | Some s \<Rightarrow> indices s))
   = (case trainSubset of None \<Rightarrow> [0..<cloud_size pc] | Some s \<Rightarrow> indices s)"
  by (simp add: train_rows_def split: option.splits)

lemma train_size_rows:
  "(case trainSubset of None \<Rightarrow> cloud_size pc | Some s \<Rightarrow> length (indices s))
   = length (case trainSubset of None \<Rightarrow> [0..<cloud_size pc] | Some s \<Rightarrow> indices s)"
  by (simp split: option.splits)

lemma train_build_matrices:
  assumes F: "features = Some f0 # fs" "cloud f0 = Some cp" "h cp = Some (PointCloudObj pc)"
    and rows: "rows = (case trainSubset of None \<Rightarrow> [0..<cloud_size pc] | Some s \<Rightarrow> indices s)"
    and sizes: "length rows < 2 ^ 32" "length features < 2 ^ 32"
    and built: "train_build e h features trainSubset = Returns (Inr (data, labels))"
  shows "\<exists>classifSF.
           classification_field e pc = Returns (Inr classifSF)
         \<and> fill_labels classifSF 0 rows (replicate (length rows) [uninitialized e]) = Some labels
         \<and> train_fill e cp pc rows 0 features
              (replicate (length rows) (replicate (length features) (uninitialized e)))
            = Returns (Inr data)"
proof -
  have n: "(case trainSubset of None \<Rightarrow> cloud_size pc | Some s \<Rightarrow> length (indices s)) = length rows"
    unfolding rows by (rule train_size_rows)
  from train_build_InrD [where h = h, OF F built] obtain classifSF where
    c: "classification_field e pc = Returns (Inr classifSF)" and
    n0: "0 \<le> unsigned_to_int (length rows)" and
    a0: "0 \<le> unsigned_to_int (length features)" and
    l: "fill_labels classifSF 0 (train_rows trainSubset (nat (unsigned_to_int (length rows))))
          (replicate (nat (unsigned_to_int (length rows))) (replicate (nat 1) (uninitialized e)))
        = Some labels" and
    d: "train_fill e cp pc (train_rows trainSubset (nat (unsigned_to_int (length rows)))) 0
          (take (nat (unsigned_to_int (length features))) features)
          (replicate (nat (unsigned_to_int (length rows)))
             (replicate (nat (unsigned_to_int (length features))) (uninitialized e)))
        = Returns (Inr data)"
    unfolding n by blast
  have nn: "nat (unsigned_to_int (length rows)) = length rows"
    by (rule unsigned_to_int_nat [OF sizes(1) n0])
  have aa: "nat (unsigned_to_int (length features)) = length features"
    by (rule unsigned_to_int_nat [OF sizes(2) a0])
  have r: "train_rows trainSubset (length rows) = rows"
    unfolding rows by (rule train_rows_all)
  from c l d show ?thesis
    unfolding nn aa r by simp
qed

lemma train_sample_matrix:
  assumes F: "features = Some f0 # fs" "cloud f0 = Some cp" "h cp = Some (PointCloudObj pc)"
    and rows: "rows = (case trainSubset of None \<Rightarrow> [0..<cloud_size pc] | Some s \<Rightarrow> indices s)"
    and sizes: "length rows < 2 ^ 32" "length features < 2 ^ 32"
    and built: "train_build e h features trainSubset = Returns (Inr (data, labels))"
  shows "length data = length rows
       \<and> (\<forall>i<length rows. length (data ! i) = length features
            \<and> (\<forall>j<length features. spec_cell e pc (features ! j) (rows ! i) = Some (data ! i ! j)))"
proof -
  let ?M = "replicate (length rows) (replicate (length features) (uninitialized e))"
  from train_build_matrices [where h = h, OF F rows sizes built] have
    d: "train_fill e cp pc rows 0 features ?M = Returns (Inr data)"
    by blast
  have len: "map length data = replicate (length rows) (length features)"
    using train_fill_lengths [OF d] by simp
  then have "length (map length data) = length rows" by simp
  then have n: "length data = length rows" by simp
  have "length (data ! i) = length features
        \<and> (\<forall>j<length features. spec_cell e pc (features ! j) (rows ! i) = Some (data ! i ! j))"
    if i: "i < length rows" for i
  proof
    from i n have "map length data ! i = length (data ! i)" by simp
    with len i show "length (data ! i) = length features" by simp
    show "\<forall>j<length features. spec_cell e pc (features ! j) (rows ! i) = Some (data ! i ! j)"
      using train_fill_cells [OF d _ i] by simp
  qed
  with n show ?thesis by blast
qed

lemma evaluate_fill_ConsD:
  assumes "evaluate_fill e pc rows j (fo # fs) M = Returns (Inr M')"
  shows "\<exists>f src M1. fo = Some f \<and> resolve_source e f pc = Returns (Inr src)
           \<and> fill_column e src j 0 rows M = Some M1
           \<and> evaluate_fill e pc rows (Suc j) fs M1 = Returns (Inr M')"
proof -
  from assms obtain f where f: "fo = Some f"
    by (cases fo) (auto simp: assert_false_def split: if_splits)
  from assms f obtain src where
    r: "resolve_source e f pc = Returns (Inr src)" and
    k: "(case fill_column e src j 0 rows M of None \<Rightarrow> Aborts UndefinedBehaviour
          | Some M1 \<Rightarrow> evaluate_fill e pc rows (Suc j) fs M1) = Returns (Inr M')"
    by (auto dest!: bind_InrD)
  from k obtain M1 where "fill_column e src j 0 rows M = Some M1"
    and "evaluate_fill e pc rows (Suc j) fs M1 = Returns (Inr M')"
    by (auto split: option.splits)
  with f r show ?thesis by blast
qed

lemma evaluate_fill_lengths:
  "evaluate_fill e pc rows j fs M = Returns (Inr M') \<Longrightarrow> map length M' = map length M"
proof (induction fs arbitrary: j M)
  case Nil
  then show ?case by simp
next
  case (Cons fo fs)
  from evaluate_fill_ConsD [OF Cons.prems] obtain src M1 where
    "fill_column e src j 0 rows M = Some M1" and
    "evaluate_fill e pc rows (Suc j) fs M1 = Returns (Inr M')"
    by blast
  then show ?case using Cons.IH fill_column_lengths by metis
qed

lemma evaluate_fill_other:
  "evaluate_fill e pc rows j fs M = Returns (Inr M') \<Longrightarrow> c < j \<Longrightarrow> M' ! r ! c = M ! r ! c"
proof (induction fs arbitrary: j M)
  case Nil
  then show ?case by simp
next
  case (Cons fo fs)
  from evaluate_fill_ConsD [OF Cons.prems(1)] obtain src M1 where
    a: "fill_column e src j 0 rows M = Some M1" and
    b: "evaluate_fill e pc rows (Suc j) fs M1 = Returns (Inr M')"
    by blast
  from Cons.prems(2) have "c < Suc j" by simp
  from Cons.IH [OF b this] have "M' ! r ! c = M1 ! r ! c" .
  moreover from Cons.prems(2) have "c \<noteq> j \<or> r < 0" by simp
  from fill_column_other [OF a this] have "M1 ! r ! c = M ! r ! c" .
  ultimately show ?case by simp
qed

lemma evaluate_fill_cells:
  "evaluate_fill e pc rows j fs M = Returns (Inr M') \<Longrightarrow> k < length fs \<Longrightarrow> i < length rows \<Longrightarrow>
     i < length M \<and> j + k < length (M ! i) \<and>
     spec_cell e pc (fs ! k) (rows ! i) = Some (M' ! i ! (j + k))"
proof (induction fs arbitrary: j M k)
  case Nil
  then show ?case by simp
next
  case (Cons fo fs)
  from evaluate_fill_ConsD [OF Cons.prems(1)] obtain f src M1 where
    f: "fo = Some f" and
    r: "resolve_source e f pc = Returns (Inr src)" and
    a: "fill_column e src j 0 rows M = Some M1" and
    b: "evaluate_fill e pc rows (Suc j) fs M1 = Returns (Inr M')"
    by blast
  have len: "map length M1 = map length M" by (rule fill_column_lengths [OF a])
  then have l1: "length M1 = length M" by (rule map_eq_imp_length_eq)
  from fill_column_cells [OF a Cons.prems(3)] obtain v where
    i: "i < length M" and jl: "j < length (M ! i)" and
    v: "pointValue src (rows ! i) = Some v" and
    c: "M1 ! i ! j = double_to_float e v"
    by auto
  show ?case
  proof (cases k)
    case 0
    have "M' ! i ! j = M1 ! i ! j"
      by (rule evaluate_fill_other [OF b]) simp
    with c resolved_cell [OF r v] f i jl 0 show ?thesis
      by simp
  next
    case (Suc k')
    with Cons.prems(2) have k': "k' < length fs" by simp
    from Cons.IH [OF b k' Cons.prems(3)] have
      x: "Suc j + k' < length (M1 ! i)" and
      y: "spec_cell e pc (fs ! k') (rows ! i) = Some (M' ! i ! (Suc j + k'))"
      by auto
    from len i l1 have "length (M1 ! i) = length (M ! i)"
      by (metis nth_map)
    with x y i Suc show ?thesis by simp
  qed
qed

lemma evaluate_build_InrD:
  assumes T: "testSubset = Some t" "associatedCloud t = Some a" "h a = Some (PointCloudObj pc)"
    and built: "evaluate_build e h c features testSubset = Returns (Inr (m, classifSF, s, test_data))"
  shows "m_rtrees c = Some m \<and> RTrees_isTrained e m \<and> features \<noteq> [] \<and> s = t
       \<and> classification_field e pc = Returns (Inr classifSF)
       \<and> 0 \<le> unsigned_to_int (length (indices t))
       \<and> 0 \<le> unsigned_to_int (length features)
       \<and> evaluate_fill e pc (indices t) 0
            (take (nat (unsigned_to_int (length features))) features)
            (replicate (nat (unsigned_to_int (length (indices t))))
               (replicate (nat (unsigned_to_int (length features))) (uninitialized e)))
          = Returns (Inr test_data)"
proof -
  let ?n = "unsigned_to_int (length (indices t))"
  let ?a = "unsigned_to_int (length features)"
  from built obtain m' where m': "m_rtrees c = Some m'"
    by (cases "m_rtrees c") (auto simp: evaluate_build_def failed_def)
  from built m' have tr: "RTrees_isTrained e m'" and ne: "features \<noteq> []"
    by (auto simp: evaluate_build_def failed_def split: if_splits)
  from built m' tr ne T have b: "bind (classification_field e pc) (\<lambda>classifSF.
       case Mat_create e ?n ?a of
         Inl msg \<Rightarrow> failed (CvExceptionMsg msg)
       | Inr test_data \<Rightarrow>
           bind (evaluate_fill e pc (indices t) 0 (take (nat ?a) features) test_data)
             (\<lambda>data. Returns (Inr (m', classifSF, t, data))))
     = Returns (Inr (m, classifSF, s, test_data))"
    by (simp add: evaluate_build_def dynamic_cast_ccPointCloud_def Let_def)
  from bind_InrD [OF b] obtain sf where
    c: "classification_field e pc = Returns (Inr sf)" and
    k: "(case Mat_create e ?n ?a of
         Inl msg \<Rightarrow> failed (CvExceptionMsg msg)
       | Inr test_data \<Rightarrow>
           bind (evaluate_fill e pc (indices t) 0 (take (nat ?a) features) test_data)
             (\<lambda>data. Returns (Inr (m', sf, t, data))))
     = Returns (Inr (m, classifSF, s, test_data))"
    by blast
  from k obtain M where m1: "Mat_create e ?n ?a = Inr M"
    by (auto simp: failed_def split: sum.splits)
  from k m1 have
    "bind (evaluate_fill e pc (indices t) 0 (take (nat ?a) features) M)
       (\<lambda>data. Returns (Inr (m', sf, t, data))) = Returns (Inr (m, classifSF, s, test_data))"
    by simp
  from bind_InrD [OF this] have
    d: "evaluate_fill e pc (indices t) 0 (take (nat ?a) features) M = Returns (Inr test_data)"
    and "m' = m" and "sf = classifSF" and "t = s"
    by auto
  with m' tr ne c Mat_create_InrD [OF m1] show ?thesis
    by auto
qed

lemma evaluate_sample_matrix:
  assumes T: "testSubset = Some t" "associatedCloud t = Some a" "h a = Some (PointCloudObj pc)"
    and sizes: "length (indices t) < 2 ^ 32" "length features < 2 ^ 32"
    and built: "evaluate_build e h c features testSubset = Returns (Inr (m, classifSF, s, test_data))"
  shows "length test_data = length (indices t)
       \<and> (\<forall>i<length (indices t). length (test_data ! i) = length features
            \<and> (\<forall>j<length features.
                  spec_cell e pc (features ! j) (indices t ! i) = Some (test_data ! i ! j)))"
proof -
  let ?rows = "indices t"
  let ?M = "replicate (length ?rows) (replicate (length features) (uninitialized e))"
  from evaluate_build_InrD [where h = h, OF T built] have
    n0: "0 \<le> unsigned_to_int (length ?rows)" and
    a0: "0 \<le> unsigned_to_int (length features)" and
    d0: "evaluate_fill e pc ?rows 0
            (take (nat (unsigned_to_int (length features))) features)
            (replicate (nat (unsigned_to_int (length ?rows)))
               (replicate (nat (unsigned_to_int (length features))) (uninitialized e)))
          = Returns (Inr test_data)"
    by blast+
  have nn: "nat (unsigned_to_int (length ?rows)) = length ?rows"
    by (rule unsigned_to_int_nat [OF sizes(1) n0])
  have aa: "nat (unsigned_to_int (length features)) = length features"
    by (rule unsigned_to_int_nat [OF sizes(2) a0])
  from d0 have d: "evaluate_fill e pc ?rows 0 features ?M = Returns (Inr test_data)"
    unfolding nn aa by simp
  have len: "map length test_data = replicate (length ?rows) (length features)"
    using evaluate_fill_lengths [OF d] by simp
  then have "length (map length test_data) = length ?rows" by simp
  then have n: "length test_data = length ?rows" by simp
  have "length (test_data ! i) = length features
        \<and> (\<forall>j<length features. spec_cell e pc (features ! j) (?rows ! i) = Some (test_data ! i ! j))"
    if i: "i < length ?rows" for i
  proof
    from i n have "map length test_data ! i = length (test_data ! i)" by simp
    with len i show "length (test_data ! i) = length features" by simp
    show "\<forall>j<length features. spec_cell e pc (features ! j) (?rows ! i) = Some (test_data ! i ! j)"
      using evaluate_fill_cells [OF d _ i] by simp
  qed
  with n show ?thesis by blast
qed

subsection \<open>The sample matrix\<close>

text \<open>
  C1. The sample matrices have one row for each selected point and one column for each
  feature, and each cell holds the value that the source of its feature gives at the
  point of its row. For \<^verbatim>\<open>train\<close>: when the checks pass and the matrices are built
  (\<open>train_build\<close> gives \<open>data\<close>), with \<open>pc\<close> the cloud of the first feature and
  \<open>rows\<close> the indices of the subset, or \<open>0, 1, ...\<close> up to the size of the cloud when
  no subset is given, \<open>data\<close> has \<open>length rows\<close> rows of \<open>length features\<close> cells and
  cell \<open>(i, j)\<close> is \<open>spec_cell\<close> of feature \<open>j\<close> at \<open>rows ! i\<close>: the value that section
  4.1 gives for the kind and the name of the feature (the named field, the coordinate,
  the colour channel), as a \<^verbatim>\<open>float\<close>. For \<^verbatim>\<open>evaluate\<close>: the same for \<open>test_data\<close>,
  the cloud of the test subset and its indices. The two sizes are below \<open>2 ^ 32\<close>, as
  the counters of the source are.
\<close>

theorem sample_matrix_cells:
  "(features = Some f0 # fs \<and> cloud f0 = Some cp \<and> h cp = Some (PointCloudObj pc)
      \<and> rows = (case trainSubset of None \<Rightarrow> [0..<cloud_size pc] | Some s \<Rightarrow> indices s)
      \<and> length rows < 2 ^ 32 \<and> length features < 2 ^ 32
      \<and> train_build e h features trainSubset = Returns (Inr (data, labels))
    \<longrightarrow> length data = length rows
        \<and> (\<forall>i<length rows. length (data ! i) = length features
             \<and> (\<forall>j<length features.
                   spec_cell e pc (features ! j) (rows ! i) = Some (data ! i ! j))))
   \<and> (testSubset = Some t \<and> associatedCloud t = Some a \<and> h a = Some (PointCloudObj tc)
      \<and> length (indices t) < 2 ^ 32 \<and> length features < 2 ^ 32
      \<and> evaluate_build e h c features testSubset = Returns (Inr (m, classifSF, s, test_data))
    \<longrightarrow> length test_data = length (indices t)
        \<and> (\<forall>i<length (indices t). length (test_data ! i) = length features
             \<and> (\<forall>j<length features.
                   spec_cell e tc (features ! j) (indices t ! i) = Some (test_data ! i ! j))))"
proof (intro conjI impI)
  assume H: "features = Some f0 # fs \<and> cloud f0 = Some cp \<and> h cp = Some (PointCloudObj pc)
      \<and> rows = (case trainSubset of None \<Rightarrow> [0..<cloud_size pc] | Some s \<Rightarrow> indices s)
      \<and> length rows < 2 ^ 32 \<and> length features < 2 ^ 32
      \<and> train_build e h features trainSubset = Returns (Inr (data, labels))"
  from train_sample_matrix [where h = h and e = e and features = features and rows = rows
      and trainSubset = trainSubset and pc = pc and data = data] H
  have r: "length data = length rows
        \<and> (\<forall>i<length rows. length (data ! i) = length features
             \<and> (\<forall>j<length features.
                   spec_cell e pc (features ! j) (rows ! i) = Some (data ! i ! j)))"
    by blast
  from r show "length data = length rows" by blast
  from r show "\<forall>i<length rows. length (data ! i) = length features
             \<and> (\<forall>j<length features.
                   spec_cell e pc (features ! j) (rows ! i) = Some (data ! i ! j))" by blast
next
  assume H: "testSubset = Some t \<and> associatedCloud t = Some a \<and> h a = Some (PointCloudObj tc)
      \<and> length (indices t) < 2 ^ 32 \<and> length features < 2 ^ 32
      \<and> evaluate_build e h c features testSubset = Returns (Inr (m, classifSF, s, test_data))"
  from evaluate_sample_matrix [where h = h and e = e and features = features and t = t
      and testSubset = testSubset and pc = tc and test_data = test_data] H
  have r: "length test_data = length (indices t)
        \<and> (\<forall>i<length (indices t). length (test_data ! i) = length features
             \<and> (\<forall>j<length features.
                   spec_cell e tc (features ! j) (indices t ! i) = Some (test_data ! i ! j)))"
    by blast
  from r show "length test_data = length (indices t)" by blast
  from r show "\<forall>i<length (indices t). length (test_data ! i) = length features
             \<and> (\<forall>j<length features.
                   spec_cell e tc (features ! j) (indices t ! i) = Some (test_data ! i ! j))" by blast
qed

lemma uchar_numeral: "uchar_to_float (numeral n) = Finite (real (unat (numeral n :: 8 word)))"
  by (simp add: uchar_to_float_def)

lemma ex_rgb_train_build:
  "train_build ex_env ex_store [Some ex_blue, Some ex_dimz, Some ex_height]
       (Some (ex_subset 5 [2, 0, 1]))
     = Returns (Inr ([[Finite 90, Finite 302, Finite 7], [Finite 30, Finite 300, Finite 5],
                      [Finite 60, Finite 301, Finite 6]],
                     [[Finite 0], [Finite 0], [Finite 1]]))"
  by (simp add: ex_defs model_defs uchar_numeral)

lemma ex_rgb_evaluate_build:
  "evaluate_build ex_env ex_store ex_trained [Some ex_blue, Some ex_dimz, Some ex_height]
       (Some (ex_subset 5 [2, 0, 1]))
     = Returns (Inr (ex_table, [Finite 0, Finite 1, Finite 0], ex_subset 5 [2, 0, 1],
         [[Finite 90, Finite 302, Finite 7], [Finite 30, Finite 300, Finite 5],
          [Finite 60, Finite 301, Finite 6]]))"
  by (simp add: ex_defs model_defs uchar_numeral)

theorem sample_matrix_cells_witness:
  "train_build ex_env ex_store [Some ex_blue, Some ex_dimz, Some ex_height]
       (Some (ex_subset 5 [2, 0, 1]))
     = Returns (Inr ([[Finite 90, Finite 302, Finite 7], [Finite 30, Finite 300, Finite 5],
                      [Finite 60, Finite 301, Finite 6]],
                     [[Finite 0], [Finite 0], [Finite 1]]))
   \<and> evaluate_build ex_env ex_store ex_trained [Some ex_blue, Some ex_dimz, Some ex_height]
       (Some (ex_subset 5 [2, 0, 1]))
     = Returns (Inr (ex_table, [Finite 0, Finite 1, Finite 0], ex_subset 5 [2, 0, 1],
         [[Finite 90, Finite 302, Finite 7], [Finite 30, Finite 300, Finite 5],
          [Finite 60, Finite 301, Finite 6]]))
   \<and> spec_cell ex_env ex_cloud_rgb (Some ex_blue) 2 = Some (Finite 90)
   \<and> spec_cell ex_env ex_cloud_rgb (Some ex_dimz) 2 = Some (Finite 302)
   \<and> spec_cell ex_env ex_cloud_rgb (Some ex_height) 2 = Some (Finite 7)
   \<and> spec_cell ex_env ex_cloud_rgb (Some ex_blue) 0 = Some (Finite 30)
   \<and> spec_cell ex_env ex_cloud_rgb (Some ex_dimz) 0 = Some (Finite 300)
   \<and> spec_cell ex_env ex_cloud_rgb (Some ex_height) 1 = Some (Finite 6)"
proof -
  let ?F = "[Some ex_blue, Some ex_dimz, Some ex_height]"
  let ?S = "ex_subset 5 [2, 0, 1]"
  let ?M = "[[Finite 90, Finite 302, Finite 7], [Finite 30, Finite 300, Finite 5],
             [Finite 60, Finite 301, Finite 6]]"
  have H1: "?F = Some ex_blue # [Some ex_dimz, Some ex_height] \<and> cloud ex_blue = Some 5
      \<and> ex_store 5 = Some (PointCloudObj ex_cloud_rgb)
      \<and> [2, 0, 1] = (case Some ?S of None \<Rightarrow> [0..<cloud_size ex_cloud_rgb]
                  | Some s \<Rightarrow> indices s)
      \<and> length [2, 0, 1 :: nat] < 2 ^ 32 \<and> length ?F < 2 ^ 32
      \<and> train_build ex_env ex_store ?F (Some ?S)
          = Returns (Inr (?M, [[Finite 0], [Finite 0], [Finite 1]]))"
    using ex_rgb_train_build by (simp add: ex_blue_def ex_store_def ex_subset_def)
  have H2: "Some ?S = Some ?S \<and> associatedCloud ?S = Some 5
      \<and> ex_store 5 = Some (PointCloudObj ex_cloud_rgb)
      \<and> length (indices ?S) < 2 ^ 32 \<and> length ?F < 2 ^ 32
      \<and> evaluate_build ex_env ex_store ex_trained ?F (Some ?S)
          = Returns (Inr (ex_table, [Finite 0, Finite 1, Finite 0], ?S, ?M))"
    using ex_rgb_evaluate_build by (simp add: ex_store_def ex_subset_def)
  note inst = sample_matrix_cells [where e = ex_env and h = ex_store and features = ?F
      and ?f0.0 = ex_blue and fs = "[Some ex_dimz, Some ex_height]" and cp = 5
      and pc = ex_cloud_rgb and rows = "[2, 0, 1]" and trainSubset = "Some ?S"
      and data = ?M and labels = "[[Finite 0], [Finite 0], [Finite 1]]"
      and testSubset = "Some ?S" and t = ?S and a = 5 and tc = ex_cloud_rgb and c = ex_trained
      and m = ex_table and classifSF = "[Finite 0, Finite 1, Finite 0]" and s = ?S
      and test_data = ?M]
  from inst [THEN conjunct1, THEN mp, OF H1] have
    tr: "\<forall>i<length [2, 0, 1 :: nat]. length (?M ! i) = length ?F
         \<and> (\<forall>j<length ?F. spec_cell ex_env ex_cloud_rgb (?F ! j) ([2, 0, 1] ! i)
                = Some (?M ! i ! j))"
    by blast
  from inst [THEN conjunct2, THEN mp, OF H2] have
    ev: "\<forall>i<length (indices ?S). length (?M ! i) = length ?F
         \<and> (\<forall>j<length ?F. spec_cell ex_env ex_cloud_rgb (?F ! j) (indices ?S ! i)
                = Some (?M ! i ! j))"
    by blast
  from tr [rule_format, of 0] have
    r0: "\<forall>j<length ?F. spec_cell ex_env ex_cloud_rgb (?F ! j) 2 = Some (?M ! 0 ! j)"
    by simp
  from tr [rule_format, of 1] have
    r1: "\<forall>j<length ?F. spec_cell ex_env ex_cloud_rgb (?F ! j) 0 = Some (?M ! 1 ! j)"
    by simp
  from ev [rule_format, of 2] have
    r2: "\<forall>j<length ?F. spec_cell ex_env ex_cloud_rgb (?F ! j) 1 = Some (?M ! 2 ! j)"
    by (simp add: ex_subset_def)
  from r0 [rule_format, of 0] r0 [rule_format, of 1] r0 [rule_format, of 2]
    r1 [rule_format, of 0] r1 [rule_format, of 1] r2 [rule_format, of 2]
  have "spec_cell ex_env ex_cloud_rgb (Some ex_blue) 2 = Some (Finite 90)
      \<and> spec_cell ex_env ex_cloud_rgb (Some ex_dimz) 2 = Some (Finite 302)
      \<and> spec_cell ex_env ex_cloud_rgb (Some ex_height) 2 = Some (Finite 7)
      \<and> spec_cell ex_env ex_cloud_rgb (Some ex_blue) 0 = Some (Finite 30)
      \<and> spec_cell ex_env ex_cloud_rgb (Some ex_dimz) 0 = Some (Finite 300)
      \<and> spec_cell ex_env ex_cloud_rgb (Some ex_height) 1 = Some (Finite 6)"
    by simp
  with ex_rgb_train_build ex_rgb_evaluate_build show ?thesis by simp
qed

subsection \<open>The labels\<close>

text \<open>
  C4, at classes outside 0 to 255: the label is narrowed to \<^verbatim>\<open>unsigned char\<close> before it
  is stored (line 274), and the range check that would have refused such classes is
  commented out. In \<open>ex_cloud_wide\<close> the classes are 256 and -1, which truncate to 256
  and -1; the labels that \<^verbatim>\<open>train\<close> builds are 0 and 255, not these. \<^verbatim>\<open>evaluate\<close>
  compares the class without the narrowing (lines 189 and 197): the classifier trained
  on the two points, which predicts the label of each of them, has no good guess on
  the same two points.
\<close>

theorem train_label_wraps:
  "classification_field ex_env ex_cloud_wide = Returns (Inr [Finite 256, Finite (- 1)])
   \<and> float_to_int (Finite 256) = Some 256
   \<and> float_to_int (Finite (- 1)) = Some (- 1)
   \<and> train_build ex_env ex_store [Some (ex_feature 4)] None
       = Returns (Inr ([[Finite 1], [Finite 9]], [[Finite 0], [Finite 255]]))
   \<and> train ex_env ex_store ex_untrained ex_params [Some (ex_feature 4)] None
       = Returns (\<lparr>m_rtrees = Some [([Finite 1], Finite 0), ([Finite 9], Finite 255)]\<rparr>,
           True, None)
   \<and> evaluate ex_env ex_store
         \<lparr>m_rtrees = Some [([Finite 1], Finite 0), ([Finite 9], Finite 255)]\<rparr>
         [Some (ex_feature 4)] (Some (ex_subset 4 [0, 1]))
       = Returns (\<lparr>m_rtrees = Some [([Finite 1], Finite 0), ([Finite 9], Finite 255)]\<rparr>,
           True, \<lparr>sampleCount = 2, goodGuess = 0, ratio = Finite 0\<rparr>, None)"
  by (simp add: ex_defs model_defs)

subsection \<open>The classification field\<close>

lemma classification_field_zero:
  "getScalarFieldIndexByName pc LAS_CLASSIFICATION = 0 \<Longrightarrow>
     classification_field e pc = failed MissingClassification"
  by (simp add: classification_field_def)

lemma classification_field_minus_one:
  "getScalarFieldIndexByName pc LAS_CLASSIFICATION = - 1 \<Longrightarrow>
     classification_field e pc = assert_false e (failed InvalidClassification)"
  by (simp add: classification_field_def getScalarField_def)

lemma train_build_at_field:
  assumes "features = Some f0 # fs" and "cloud f0 = Some cp" and "h cp = Some (PointCloudObj pc)"
    and "case trainSubset of None \<Rightarrow> True | Some s \<Rightarrow> associatedCloud s = Some cp"
    and "classification_field e pc = Returns (Inl err)"
  shows "train_build e h features trainSubset = Returns (Inl err)"
  using assms by (auto simp: train_build_def bind_def split: option.splits)

lemma evaluate_build_at_field:
  assumes "features \<noteq> []" and "isValid e c" and "testSubset = Some t"
    and "associatedCloud t = Some cp" and "h cp = Some (PointCloudObj pc)"
    and "classification_field e pc = Returns (Inl err)"
  shows "evaluate_build e h c features testSubset = Returns (Inl err)"
  using assms
  by (auto simp: evaluate_build_def isValid_def dynamic_cast_ccPointCloud_def bind_def
      split: option.splits)

text \<open>
  C5. The presence check \<^verbatim>\<open>if (!classifSFIdx)\<close> takes index 0 for a missing field.
  With a cloud \<open>pc\<close> behind the first feature and behind the test subset, a train subset
  (if any) on the same cloud and a valid classifier: when the classification field is
  the field of index 0, \<^verbatim>\<open>train\<close> and \<^verbatim>\<open>evaluate\<close> both return false with the message
  of the missing field; when the lookup gives -1, that branch is not taken, and the next
  one asserts and reports an invalid field.
\<close>

theorem classification_index_zero_missing:
  assumes "features = Some f0 # fs" and "cloud f0 = Some cp" and "h cp = Some (PointCloudObj pc)"
    and "case trainSubset of None \<Rightarrow> True | Some s \<Rightarrow> associatedCloud s = Some cp"
    and "isValid e c" and "testSubset = Some t" and "associatedCloud t = Some cp"
  shows "(getScalarFieldIndexByName pc LAS_CLASSIFICATION = 0 \<longrightarrow>
            train e h c params features trainSubset = Returns (c, False, Some MissingClassification)
          \<and> evaluate e h c features testSubset
              = Returns (c, False, zero_metrics, Some MissingClassification))
       \<and> (getScalarFieldIndexByName pc LAS_CLASSIFICATION = - 1 \<longrightarrow>
            train e h c params features trainSubset
              = assert_false e (Returns (c, False, Some InvalidClassification))
          \<and> evaluate e h c features testSubset
              = assert_false e (Returns (c, False, zero_metrics, Some InvalidClassification)))"
proof (intro conjI impI)
  assume z: "getScalarFieldIndexByName pc LAS_CLASSIFICATION = 0"
  have f: "classification_field e pc = Returns (Inl (Some MissingClassification))"
    using classification_field_zero [where e = e, OF z] by (simp add: failed_def)
  show "train e h c params features trainSubset = Returns (c, False, Some MissingClassification)"
    using train_build_at_field [where h = h and e = e, OF assms(1-4) f] by (simp add: train_def)
  have ne: "features \<noteq> []" using assms(1) by simp
  show "evaluate e h c features testSubset = Returns (c, False, zero_metrics, Some MissingClassification)"
    using evaluate_build_at_field [where h = h and e = e, OF ne assms(5,6,7,3) f]
    by (simp add: evaluate_def)
next
  assume m: "getScalarFieldIndexByName pc LAS_CLASSIFICATION = - 1"
  have ne: "features \<noteq> []" using assms(1) by simp
  show "train e h c params features trainSubset
              = assert_false e (Returns (c, False, Some InvalidClassification))"
  proof (cases "NDEBUG e")
    case True
    then have f: "classification_field e pc = Returns (Inl (Some InvalidClassification))"
      using classification_field_minus_one [where e = e, OF m]
      by (simp add: failed_def assert_false_def)
    show ?thesis using train_build_at_field [where h = h and e = e, OF assms(1-4) f] True
      by (simp add: train_def assert_false_def)
  next
    case False
    then have f: "classification_field e pc = Aborts AssertionFailed"
      using classification_field_minus_one [where e = e, OF m] by (simp add: assert_false_def)
    show ?thesis using assms(1-4) f False
      by (auto simp: train_def train_build_def bind_def assert_false_def split: option.splits)
  qed
  show "evaluate e h c features testSubset
              = assert_false e (Returns (c, False, zero_metrics, Some InvalidClassification))"
  proof (cases "NDEBUG e")
    case True
    then have f: "classification_field e pc = Returns (Inl (Some InvalidClassification))"
      using classification_field_minus_one [where e = e, OF m]
      by (simp add: failed_def assert_false_def)
    show ?thesis using evaluate_build_at_field [where h = h and e = e, OF ne assms(5,6,7,3) f] True
      by (simp add: evaluate_def assert_false_def)
  next
    case False
    then have f: "classification_field e pc = Aborts AssertionFailed"
      using classification_field_minus_one [where e = e, OF m] by (simp add: assert_false_def)
    show ?thesis using ne assms(5,6,7,3) f False
      by (auto simp: evaluate_def evaluate_build_def isValid_def dynamic_cast_ccPointCloud_def
          bind_def assert_false_def split: option.splits)
  qed
qed

theorem classification_index_zero_missing_witness:
  "getScalarFieldIndexByName ex_cloud_class_first LAS_CLASSIFICATION = 0
   \<and> train ex_env ex_store ex_trained ex_params [Some (ex_feature 2)] None
       = Returns (ex_trained, False, Some MissingClassification)
   \<and> evaluate ex_env ex_store ex_trained [Some (ex_feature 2)] (Some (ex_subset 2 [0]))
       = Returns (ex_trained, False, zero_metrics, Some MissingClassification)
   \<and> getScalarFieldIndexByName ex_cloud_no_class LAS_CLASSIFICATION = - 1
   \<and> train ex_env ex_store ex_trained ex_params [Some (ex_feature 3)] None
       = Returns (ex_trained, False, Some InvalidClassification)
   \<and> evaluate ex_env ex_store ex_trained [Some (ex_feature 3)] (Some (ex_subset 3 [0]))
       = Returns (ex_trained, False, zero_metrics, Some InvalidClassification)"
proof -
  have v: "isValid ex_env ex_trained"
    by (simp add: isValid_def ex_trained_def ex_table_def ex_env_def)
  have z: "getScalarFieldIndexByName ex_cloud_class_first LAS_CLASSIFICATION = 0"
    by (simp add: getScalarFieldIndexByName_def ex_cloud_class_first_def LAS_CLASSIFICATION_def)
  have m: "getScalarFieldIndexByName ex_cloud_no_class LAS_CLASSIFICATION = - 1"
    by (simp add: getScalarFieldIndexByName_def ex_cloud_no_class_def LAS_CLASSIFICATION_def)
  have a: "train ex_env ex_store ex_trained ex_params [Some (ex_feature 2)] None
       = Returns (ex_trained, False, Some MissingClassification)
     \<and> evaluate ex_env ex_store ex_trained [Some (ex_feature 2)] (Some (ex_subset 2 [0]))
       = Returns (ex_trained, False, zero_metrics, Some MissingClassification)"
    using z classification_index_zero_missing [where e = ex_env and h = ex_store
        and features = "[Some (ex_feature 2)]" and ?f0.0 = "ex_feature 2" and fs = "[]"
        and cp = 2 and pc = ex_cloud_class_first and trainSubset = None and c = ex_trained
        and testSubset = "Some (ex_subset 2 [0])" and t = "ex_subset 2 [0]" and params = ex_params]
      v
    by (simp add: ex_feature_def ex_store_def ex_subset_def)
  have b: "train ex_env ex_store ex_trained ex_params [Some (ex_feature 3)] None
       = Returns (ex_trained, False, Some InvalidClassification)
     \<and> evaluate ex_env ex_store ex_trained [Some (ex_feature 3)] (Some (ex_subset 3 [0]))
       = Returns (ex_trained, False, zero_metrics, Some InvalidClassification)"
    using m classification_index_zero_missing [where e = ex_env and h = ex_store
        and features = "[Some (ex_feature 3)]" and ?f0.0 = "ex_feature 3" and fs = "[]"
        and cp = 3 and pc = ex_cloud_no_class and trainSubset = None and c = ex_trained
        and testSubset = "Some (ex_subset 3 [0])" and t = "ex_subset 3 [0]" and params = ex_params]
      v
    by (simp add: ex_feature_def ex_store_def ex_subset_def assert_false_def ex_env_def)
  from z m a b show ?thesis by simp
qed

subsection \<open>train: the classifier after a failure\<close>

text \<open>
  C2, as stated, fails: a \<^verbatim>\<open>train\<close> that fails one of its checks leaves the classifier
  as it was. On a trained classifier, a call without features and a call on a cloud
  without classes both return false, and the classifier is still valid.
\<close>

theorem train_failure_keeps_model:
  "train ex_env ex_store ex_trained ex_params [] None = Returns (ex_trained, False, Some NoFeature)
   \<and> train ex_env ex_store ex_trained ex_params [Some (ex_feature 3)] None
       = Returns (ex_trained, False, Some InvalidClassification)
   \<and> isValid ex_env ex_trained"
  by (simp add: ex_defs model_defs)

text \<open>
  C2, amended. A call of \<^verbatim>\<open>train\<close> that returns false either failed before the random
  trees were created (a check, an allocation, a source), and then the classifier is
  exactly as it was, with the model it had; or the matrices were built and the training
  ran, and then, when the training threw a \<^verbatim>\<open>cv::Exception\<close> or left a model that is
  not trained, the classifier holds no model and \<^verbatim>\<open>isValid\<close> is false. (Nothing is said
  of the two other handlers.)
\<close>

theorem train_failure_model:
  assumes "train e h c params features trainSubset = Returns (c', False, err)"
  shows "(train_build e h features trainSubset = Returns (Inl err) \<and> c' = c)
       \<or> (\<exists>data labels. train_build e h features trainSubset = Returns (Inr (data, labels))
            \<and> (case RTrees_train e params data labels of
                  TrainDone m \<Rightarrow> \<not> RTrees_isTrained e m \<and> m_rtrees c' = None \<and> \<not> isValid e c'
                | ThrowsCv msg \<Rightarrow> m_rtrees c' = None \<and> \<not> isValid e c'
                | ThrowsStd msg m \<Rightarrow> True
                | ThrowsOther m \<Rightarrow> True))"
  using assms
  by (auto simp: train_def isValid_def
      split: outcome.splits sum.splits prod.splits train_result.splits if_splits)

theorem train_failure_model_witness:
  "train ex_env ex_store ex_trained ex_params [Some (ex_feature 1)] (Some (ex_subset 1 []))
     = Returns (ex_untrained, False, Some TrainingFailed)
   \<and> train_build ex_env ex_store [Some (ex_feature 1)] (Some (ex_subset 1 [])) = Returns (Inr ([], []))
   \<and> RTrees_train ex_env ex_params [] [] = TrainDone []
   \<and> m_rtrees ex_untrained = None \<and> \<not> isValid ex_env ex_untrained"
proof -
  have run: "train ex_env ex_store ex_trained ex_params [Some (ex_feature 1)] (Some (ex_subset 1 []))
     = Returns (ex_untrained, False, Some TrainingFailed)"
    by (simp add: ex_defs model_defs)
  have b: "train_build ex_env ex_store [Some (ex_feature 1)] (Some (ex_subset 1 [])) = Returns (Inr ([], []))"
    by (simp add: ex_defs model_defs)
  have t: "RTrees_train ex_env ex_params [] [] = TrainDone []"
    by (simp add: ex_env_def)
  from train_failure_model [OF run] b t have "m_rtrees ex_untrained = None \<and> \<not> isValid ex_env ex_untrained"
    by simp
  with run b t show ?thesis by simp
qed

subsection \<open>evaluate: the classifier and the metrics\<close>

lemma evaluate_state:
  "evaluate e h c features testSubset = Returns (c', ok, metrics, err) \<Longrightarrow> c' = c"
  by (auto simp: evaluate_def split: outcome.splits sum.splits option.splits prod.splits)

lemma ex_evaluate:
  "evaluate ex_env ex_store ex_trained [Some (ex_feature 1)] (Some (ex_subset 1 [2, 1]))
     = Returns (ex_trained, True, \<lparr>sampleCount = 2, goodGuess = 2, ratio = Finite 1\<rparr>, None)"
  by (simp add: ex_defs model_defs)

text \<open>
  C9. \<^verbatim>\<open>evaluate\<close> never changes the trained model: whenever a call returns, the
  classifier it leaves has the model it was given, whatever the features and the test
  subset; and a second call on the classifier it leaves, with the same features and test
  subset, returns the same value, the same metrics and the same message.
\<close>

theorem evaluate_keeps_model:
  "evaluate e h c features testSubset = Returns (c', ok, metrics, err) \<Longrightarrow>
     m_rtrees c' = m_rtrees c
     \<and> evaluate e h c' features testSubset = Returns (c', ok, metrics, err)"
  using evaluate_state [of e h c features testSubset c' ok metrics err] by simp

theorem evaluate_keeps_model_witness:
  "evaluate ex_env ex_store ex_trained [Some (ex_feature 1)] (Some (ex_subset 1 [2, 1]))
     = Returns (ex_trained, True, \<lparr>sampleCount = 2, goodGuess = 2, ratio = Finite 1\<rparr>, None)
   \<and> m_rtrees ex_trained = m_rtrees ex_trained"
  using evaluate_keeps_model [OF ex_evaluate] ex_evaluate by simp

text \<open>
  C10. Whenever \<^verbatim>\<open>evaluate\<close> returns false, the metrics are the zeroed ones: sample
  count 0, good guesses 0, ratio 0. Every \<^verbatim>\<open>return false\<close> of the function comes before
  the metrics are computed.
\<close>

theorem evaluate_failure_zeroed:
  "evaluate e h c features testSubset = Returns (c', False, metrics, err) \<Longrightarrow>
     sampleCount metrics = 0 \<and> goodGuess metrics = 0 \<and> ratio metrics = Finite 0"
  by (auto simp: evaluate_def zero_metrics_def
      split: outcome.splits sum.splits option.splits prod.splits)

theorem evaluate_failure_zeroed_witness:
  "evaluate ex_env ex_store ex_untrained [Some (ex_feature 1)] (Some (ex_subset 1 [2, 1]))
     = Returns (ex_untrained, False, zero_metrics, Some NotTrainedYet)
   \<and> sampleCount zero_metrics = 0 \<and> goodGuess zero_metrics = 0 \<and> ratio zero_metrics = Finite 0"
proof -
  have run: "evaluate ex_env ex_store ex_untrained [Some (ex_feature 1)] (Some (ex_subset 1 [2, 1]))
     = Returns (ex_untrained, False, zero_metrics, Some NotTrainedYet)"
    by (simp add: evaluate_def evaluate_build_def ex_untrained_def failed_def)
  from evaluate_failure_zeroed [OF run] run show ?thesis by simp
qed

text \<open>
  C3, at an empty test subset: \<^verbatim>\<open>evaluate\<close> returns true with sample count 0, and the
  ratio is the quotient of two zero floats, NaN, not 0.
\<close>

theorem evaluate_empty_subset_ratio:
  "evaluate ex_env ex_store ex_trained [Some (ex_feature 1)] (Some (ex_subset 1 []))
     = Returns (ex_trained, True, \<lparr>sampleCount = 0, goodGuess = 0, ratio = NaN\<rparr>, None)"
  by (simp add: ex_defs model_defs)

text \<open>
  C6, at a feature set whose second feature belongs to another cloud than the first
  feature and the subset: \<^verbatim>\<open>train\<close> returns false with the message of the differing
  cloud, and \<^verbatim>\<open>evaluate\<close> returns true with metrics computed on the cloud of the
  subset.
\<close>

theorem evaluate_accepts_other_cloud:
  "cloud (ex_feature 2) = Some 2 \<and> associatedCloud (ex_subset 1 [0, 1, 2]) = Some 1
   \<and> train ex_env ex_store ex_untrained ex_params [Some (ex_feature 1), Some (ex_feature 2)]
       (Some (ex_subset 1 [0, 1, 2]))
     = Returns (ex_untrained, False, Some (FeatureCloudDiffers (ex_feature 2)))
   \<and> evaluate ex_env ex_store ex_trained [Some (ex_feature 1), Some (ex_feature 2)]
       (Some (ex_subset 1 [0, 1, 2]))
     = Returns (ex_trained, True, \<lparr>sampleCount = 3, goodGuess = 2, ratio = Finite (2 / 3)\<rparr>, None)"
  by (simp add: ex_defs model_defs)

subsection \<open>fromFile\<close>

text \<open>
  C8. When the file loads as a model that reports itself untrained, \<^verbatim>\<open>fromFile\<close>
  returns true with a warning, the classifier holds the loaded model, and
  \<^verbatim>\<open>isValid\<close> is false on it.
\<close>

theorem fromFile_untrained:
  "RTrees_load e filename fs = Some (Some m) \<Longrightarrow> \<not> RTrees_isTrained e m \<Longrightarrow>
     fromFile e c filename fs = Returns (c\<lparr>m_rtrees := Some m\<rparr>, True, True)
     \<and> \<not> isValid e (c\<lparr>m_rtrees := Some m\<rparr>)"
  by (simp add: fromFile_def isValid_def)

theorem fromFile_untrained_witness:
  "RTrees_load ex_env ''forest.yml'' (ex_files(''forest.yml'' := Some [])) = Some (Some [])
   \<and> \<not> RTrees_isTrained ex_env []
   \<and> fromFile ex_env ex_trained ''forest.yml'' (ex_files(''forest.yml'' := Some []))
       = Returns (ex_trained\<lparr>m_rtrees := Some []\<rparr>, True, True)
   \<and> \<not> isValid ex_env (ex_trained\<lparr>m_rtrees := Some []\<rparr>)"
proof -
  have l: "RTrees_load ex_env ''forest.yml'' (ex_files(''forest.yml'' := Some [])) = Some (Some [])"
    by (simp add: ex_env_def)
  have t: "\<not> RTrees_isTrained ex_env []"
    by (simp add: ex_env_def)
  from fromFile_untrained [OF l t, of ex_trained] l t show ?thesis by simp
qed

subsection \<open>toFile, then fromFile\<close>

lemma count_goodGuess_predict:
  "RTrees_predict e m' = RTrees_predict e m \<Longrightarrow>
     count_goodGuess e m' sf M i ps g = count_goodGuess e m sf M i ps g"
  by (induction ps arbitrary: i g) (simp_all split: option.splits)

lemma evaluate_build_model:
  assumes "m_rtrees c = Some m" and "m_rtrees c' = Some m'"
    and "RTrees_isTrained e m' = RTrees_isTrained e m"
  shows "evaluate_build e h c' features testSubset =
           (case evaluate_build e h c features testSubset of
              Aborts a \<Rightarrow> Aborts a
            | Returns (Inl err) \<Rightarrow> Returns (Inl err)
            | Returns (Inr (x, sf, s, d)) \<Rightarrow> Returns (Inr (m', sf, s, d)))"
  using assms
  by (auto simp: evaluate_build_def bind_def failed_def Let_def
      split: option.splits outcome.splits sum.splits)

lemma evaluate_build_Inr_model:
  "evaluate_build e h c features testSubset = Returns (Inr (x, sf, s, d)) \<Longrightarrow> m_rtrees c = Some x"
  by (auto simp: evaluate_build_def bind_def failed_def Let_def
      split: option.splits outcome.splits sum.splits if_splits)

lemma evaluate_result_model:
  assumes "m_rtrees c = Some m" and "m_rtrees c' = Some m'"
    and "RTrees_isTrained e m' = RTrees_isTrained e m"
    and "RTrees_predict e m' = RTrees_predict e m"
  shows "evaluate_result e h c' features testSubset = evaluate_result e h c features testSubset"
proof (cases "evaluate_build e h c features testSubset")
  case (Aborts a)
  with evaluate_build_model [OF assms(1-3), of h features testSubset] show ?thesis
    by (simp add: evaluate_result_def evaluate_def)
next
  case (Returns r)
  show ?thesis
  proof (cases r)
    case (Inl err)
    with Returns evaluate_build_model [OF assms(1-3), of h features testSubset] show ?thesis
      by (simp add: evaluate_result_def evaluate_def)
  next
    case (Inr q)
    obtain x sf s d where q: "q = (x, sf, s, d)" by (cases q) auto
    from Returns Inr q evaluate_build_Inr_model [of e h c features testSubset x sf s d] assms(1)
    have x: "x = m" by simp
    from Returns Inr q x evaluate_build_model [OF assms(1-3), of h features testSubset]
      count_goodGuess_predict [OF assms(4)]
    show ?thesis
      by (simp add: evaluate_result_def evaluate_def split: option.splits)
  qed
qed

lemma train_success:
  "train e h c0 params features trainSubset = Returns (c, True, err) \<Longrightarrow>
     \<exists>m. m_rtrees c = Some m \<and> RTrees_isTrained e m"
  by (auto simp: train_def
      split: outcome.splits sum.splits prod.splits train_result.splits if_splits)

text \<open>
  C7. After a \<^verbatim>\<open>train\<close> that returned true, \<^verbatim>\<open>toFile\<close> to \<open>p\<close> and \<^verbatim>\<open>fromFile\<close>
  from \<open>p\<close> into a new classifier give a classifier for which \<^verbatim>\<open>evaluate\<close>, on any
  features and test subset, returns the same value, metrics and message as for the
  original. The random trees are a library: the theorem takes from it that loading
  what was saved gives a model with the same \<^verbatim>\<open>isTrained\<close> and \<^verbatim>\<open>predict\<close>.
\<close>

theorem save_load_roundtrip:
  assumes trained: "train e h c0 params features0 trainSubset = Returns (c, True, err0)"
    and saved: "toFile e c p fs = Returns (True, fs', w)"
    and library: "\<forall>m. RTrees_save e m p fs = Some fs' \<longrightarrow>
           (\<exists>m'. RTrees_load e p fs' = Some (Some m')
              \<and> RTrees_isTrained e m' = RTrees_isTrained e m
              \<and> RTrees_predict e m' = RTrees_predict e m)"
  shows "\<exists>c'. fromFile e Classifier_new p fs' = Returns (c', True, False)
           \<and> evaluate_result e h c' features testSubset
               = evaluate_result e h c features testSubset"
proof -
  from train_success [OF trained] obtain m where
    m: "m_rtrees c = Some m" and t: "RTrees_isTrained e m"
    by blast
  from saved m have s: "RTrees_save e m p fs = Some fs'"
    by (auto simp: toFile_def split: option.splits)
  with library obtain m' where
    l: "RTrees_load e p fs' = Some (Some m')" and
    t': "RTrees_isTrained e m' = RTrees_isTrained e m" and
    p': "RTrees_predict e m' = RTrees_predict e m"
    by blast
  let ?c' = "Classifier_new\<lparr>m_rtrees := Some m'\<rparr> :: 'a Classifier"
  from l t t' have "fromFile e Classifier_new p fs' = Returns (?c', True, False)"
    by (simp add: fromFile_def)
  moreover have "m_rtrees ?c' = Some m'" by simp
  from evaluate_result_model [OF m this t' p']
  have "evaluate_result e h ?c' features testSubset = evaluate_result e h c features testSubset" .
  ultimately show ?thesis by blast
qed

theorem save_load_roundtrip_witness:
  "train ex_env ex_store ex_untrained ex_params [Some (ex_feature 1)] None
     = Returns (ex_trained, True, None)
   \<and> toFile ex_env ex_trained ''forest.yml'' ex_files
     = Returns (True, ex_files(''forest.yml'' := Some ex_table), False)
   \<and> fromFile ex_env Classifier_new ''forest.yml'' (ex_files(''forest.yml'' := Some ex_table))
     = Returns (ex_trained, True, False)
   \<and> evaluate_result ex_env ex_store ex_trained [Some (ex_feature 1)] (Some (ex_subset 1 [2, 1]))
     = Returns (True, \<lparr>sampleCount = 2, goodGuess = 2, ratio = Finite 1\<rparr>, None)"
proof -
  have trained: "train ex_env ex_store ex_untrained ex_params [Some (ex_feature 1)] None
     = Returns (ex_trained, True, None)"
    by (simp add: ex_defs model_defs)
  have saved: "toFile ex_env ex_trained ''forest.yml'' ex_files
     = Returns (True, ex_files(''forest.yml'' := Some ex_table), False)"
    by (simp add: toFile_def ex_trained_def ex_env_def)
  have library: "\<forall>m. RTrees_save ex_env m ''forest.yml'' ex_files
          = Some (ex_files(''forest.yml'' := Some ex_table)) \<longrightarrow>
           (\<exists>m'. RTrees_load ex_env ''forest.yml'' (ex_files(''forest.yml'' := Some ex_table))
                  = Some (Some m')
              \<and> RTrees_isTrained ex_env m' = RTrees_isTrained ex_env m
              \<and> RTrees_predict ex_env m' = RTrees_predict ex_env m)"
    by (auto simp: ex_env_def dest: fun_upd_eqD)
  have loaded: "fromFile ex_env Classifier_new ''forest.yml'' (ex_files(''forest.yml'' := Some ex_table))
     = Returns (ex_trained, True, False)"
    by (simp add: fromFile_def Classifier_new_def ex_trained_def ex_env_def ex_table_def)
  from save_load_roundtrip [where h = ex_store and features = "[Some (ex_feature 1)]"
      and testSubset = "Some (ex_subset 1 [2, 1])", OF trained saved library] loaded
  have "evaluate_result ex_env ex_store ex_trained [Some (ex_feature 1)] (Some (ex_subset 1 [2, 1]))
     = evaluate_result ex_env ex_store ex_trained [Some (ex_feature 1)] (Some (ex_subset 1 [2, 1]))"
    by simp
  moreover have "evaluate_result ex_env ex_store ex_trained [Some (ex_feature 1)]
       (Some (ex_subset 1 [2, 1]))
     = Returns (True, \<lparr>sampleCount = 2, goodGuess = 2, ratio = Finite 1\<rparr>, None)"
    using ex_evaluate by (simp add: evaluate_result_def)
  ultimately show ?thesis using trained saved loaded by simp
qed

end
